theory Spec2Isabelle
  imports Complex_Main
begin

text \<open>
  The branch selection of \<^verbatim>\<open>components/functions/filtering/branches_with_el_cars.ts\<close>:
  \<^verbatim>\<open>getDistance\<close>, \<^verbatim>\<open>findNearbyBranchesFromPolyline\<close> and
  \<^verbatim>\<open>getBestBranchWithAvailableEV\<close> with their helpers.  Reading the three CSV tables
  and decoding the polyline are outside the model: the functions take the rows and the
  decoded path as arguments.
\<close>

section \<open>JavaScript numbers\<close>

text \<open>
  The routing code computes with JavaScript numbers.  They are modelled as the real
  numbers extended by the two infinities and NaN: rounding and the sign of zero are
  left out, division by zero, the infinities and the comparisons with NaN are as in
  the language.
\<close>

datatype number = NaN | NInf | Fin real | PInf

definition inf_of_sign :: "real \<Rightarrow> number" where
  "inf_of_sign s = (if 0 < s then PInf else if s < 0 then NInf else NaN)"

fun js_neg :: "number \<Rightarrow> number" where
  "js_neg NaN = NaN"
| "js_neg NInf = PInf"
| "js_neg (Fin x) = Fin (- x)"
| "js_neg PInf = NInf"

fun js_add :: "number \<Rightarrow> number \<Rightarrow> number" where
  "js_add (Fin x) (Fin y) = Fin (x + y)"
| "js_add NaN b = NaN"
| "js_add a NaN = NaN"
| "js_add PInf NInf = NaN"
| "js_add NInf PInf = NaN"
| "js_add PInf b = PInf"
| "js_add a PInf = PInf"
| "js_add NInf b = NInf"
| "js_add a NInf = NInf"

definition js_sub :: "number \<Rightarrow> number \<Rightarrow> number" where
  "js_sub a b = js_add a (js_neg b)"

fun js_mul :: "number \<Rightarrow> number \<Rightarrow> number" where
  "js_mul (Fin x) (Fin y) = Fin (x * y)"
| "js_mul NaN b = NaN"
| "js_mul a NaN = NaN"
| "js_mul PInf (Fin y) = inf_of_sign y"
| "js_mul NInf (Fin y) = inf_of_sign (- y)"
| "js_mul (Fin x) PInf = inf_of_sign x"
| "js_mul (Fin x) NInf = inf_of_sign (- x)"
| "js_mul PInf PInf = PInf"
| "js_mul PInf NInf = NInf"
| "js_mul NInf PInf = NInf"
| "js_mul NInf NInf = PInf"

fun js_div :: "number \<Rightarrow> number \<Rightarrow> number" where
  "js_div (Fin x) (Fin y) = (if y = 0 then inf_of_sign x else Fin (x / y))"
| "js_div NaN b = NaN"
| "js_div a NaN = NaN"
| "js_div (Fin x) b = Fin 0"
| "js_div PInf (Fin y) = (if 0 \<le> y then PInf else NInf)"
| "js_div NInf (Fin y) = (if 0 \<le> y then NInf else PInf)"
| "js_div a b = NaN"

text \<open>\<^verbatim>\<open>x ** 2\<close>\<close>

fun js_pow2 :: "number \<Rightarrow> number" where
  "js_pow2 NaN = NaN"
| "js_pow2 (Fin x) = Fin (x ^ 2)"
| "js_pow2 a = PInf"

fun js_sin :: "number \<Rightarrow> number" where
  "js_sin (Fin x) = Fin (sin x)"
| "js_sin a = NaN"

fun js_cos :: "number \<Rightarrow> number" where
  "js_cos (Fin x) = Fin (cos x)"
| "js_cos a = NaN"

fun js_sqrt :: "number \<Rightarrow> number" where
  "js_sqrt (Fin x) = (if x < 0 then NaN else Fin (sqrt x))"
| "js_sqrt PInf = PInf"
| "js_sqrt a = NaN"

definition atan2r :: "real \<Rightarrow> real \<Rightarrow> real" where
  "atan2r y x =
     (if 0 < x then arctan (y / x)
      else if x < 0 then (if 0 \<le> y then arctan (y / x) + pi else arctan (y / x) - pi)
      else if 0 < y then pi / 2 else if y < 0 then - (pi / 2) else 0)"

fun js_atan2 :: "number \<Rightarrow> number \<Rightarrow> number" where
  "js_atan2 (Fin y) (Fin x) = Fin (atan2r y x)"
| "js_atan2 NaN b = NaN"
| "js_atan2 a NaN = NaN"
| "js_atan2 (Fin y) PInf = Fin 0"
| "js_atan2 (Fin y) NInf = Fin (if 0 \<le> y then pi else - pi)"
| "js_atan2 PInf (Fin x) = Fin (pi / 2)"
| "js_atan2 NInf (Fin x) = Fin (- (pi / 2))"
| "js_atan2 PInf PInf = Fin (pi / 4)"
| "js_atan2 PInf NInf = Fin (3 * pi / 4)"
| "js_atan2 NInf PInf = Fin (- (pi / 4))"
| "js_atan2 NInf NInf = Fin (- (3 * pi / 4))"

text \<open>\<^verbatim>\<open>a < b\<close> and \<^verbatim>\<open>a > b\<close>: every comparison with NaN is false.\<close>

fun js_lt :: "number \<Rightarrow> number \<Rightarrow> bool" where
  "js_lt (Fin x) (Fin y) = (x < y)"
| "js_lt NaN b = False"
| "js_lt a NaN = False"
| "js_lt a NInf = False"
| "js_lt PInf b = False"
| "js_lt NInf b = True"
| "js_lt a PInf = True"

definition js_gt :: "number \<Rightarrow> number \<Rightarrow> bool" where
  "js_gt a b = js_lt b a"

text \<open>\<^verbatim>\<open>a <= b\<close>, used to state that a threshold is increased.\<close>

definition js_le :: "number \<Rightarrow> number \<Rightarrow> bool" where
  "js_le a b = (a \<noteq> NaN \<and> b \<noteq> NaN \<and> \<not> js_lt b a)"

definition isNaN :: "number \<Rightarrow> bool" where
  "isNaN a = (a = NaN)"

definition isFinite :: "number \<Rightarrow> bool" where
  "isFinite a = (case a of Fin x \<Rightarrow> True | _ \<Rightarrow> False)"

section \<open>Distance formula\<close>

record Point =
  lat :: number
  lng :: number

definition Math_PI :: number where
  "Math_PI = Fin pi"

text \<open>\<^verbatim>\<open>getDistance\<close>: haversine distance in metres.\<close>

definition getDistance :: "Point \<Rightarrow> Point \<Rightarrow> number" where
  "getDistance p1 p2 =
     (let R = Fin 6371000;
          phi1 = js_div (js_mul (Point.lat p1) Math_PI) (Fin 180);
          phi2 = js_div (js_mul (Point.lat p2) Math_PI) (Fin 180);
          dphi = js_div (js_mul (js_sub (Point.lat p2) (Point.lat p1)) Math_PI) (Fin 180);
          dlam = js_div (js_mul (js_sub (Point.lng p2) (Point.lng p1)) Math_PI) (Fin 180);
          a = js_add (js_pow2 (js_sin (js_div dphi (Fin 2))))
                (js_mul (js_mul (js_cos phi1) (js_cos phi2))
                   (js_pow2 (js_sin (js_div dlam (Fin 2)))));
          c = js_mul (Fin 2) (js_atan2 (js_sqrt a) (js_sqrt (js_sub (Fin 1) a)))
      in js_mul R c)"

section \<open>Strings and the built-ins of the runtime\<close>

text \<open>
  Strings are lists of characters (ASCII).  \<^verbatim>\<open>String.prototype.trim\<close> removes the white
  space at both ends; \<^verbatim>\<open>startsWith("E")\<close> looks at the first character.
\<close>

definition is_space :: "char \<Rightarrow> bool" where
  "is_space c = (c \<in> set [CHR '' '', CHR 0x09, CHR 0x0A, CHR 0x0B, CHR 0x0C, CHR 0x0D])"

definition trim :: "string \<Rightarrow> string" where
  "trim s = rev (dropWhile is_space (rev (dropWhile is_space s)))"

definition startsWithE :: "string \<Rightarrow> bool" where
  "startsWithE s = (case s of [] \<Rightarrow> False | c # cs \<Rightarrow> c = CHR ''E'')"

text \<open>\<^verbatim>\<open>cell.replace(/'/g, '"')\<close>\<close>

definition replace_quotes :: "string \<Rightarrow> string" where
  "replace_quotes s = map (\<lambda>c. if c = CHR 0x27 then CHR 0x22 else c) s"

text \<open>
  The library functions the code calls are parameters of the model:
  \<^verbatim>\<open>parseFloat\<close>, \<^verbatim>\<open>JSON.parse\<close> (at the type \<^verbatim>\<open>string[]\<close> the code casts its
  result to; \<open>None\<close> when it throws), \<^verbatim>\<open>Date.parse\<close> (milliseconds since the epoch,
  \<open>None\<close> for NaN) and the offset of local time from UTC, in milliseconds, at an
  instant.
\<close>

record js_env =
  parseFloat :: "string \<Rightarrow> number"
  JSON_parse :: "string \<Rightarrow> string list option"
  Date_parse :: "string \<Rightarrow> int option"
  tz_offset :: "int \<Rightarrow> int"

text \<open>\<^verbatim>\<open>parseStringArray\<close>: a CSV cell that looks like \<^verbatim>\<open>['A','B']\<close> as a list of strings.\<close>

definition parseStringArray :: "js_env \<Rightarrow> string option \<Rightarrow> string list" where
  "parseStringArray env cell =
     (case cell of
        None \<Rightarrow> []
      | Some s \<Rightarrow>
          if s = [] then []
          else (case JSON_parse env (replace_quotes s) of None \<Rightarrow> [] | Some xs \<Rightarrow> xs))"

subsection \<open>Dates\<close>

text \<open>
  A \<^verbatim>\<open>Date\<close> holds a time value: milliseconds since the epoch, or NaN (\<open>None\<close>).
  The local calendar fields are those of the civil (Gregorian) date of the day number of
  the time value shifted by the local offset.
\<close>

datatype date_arg = DateObj "int option" | DateStr string

definition new_Date :: "js_env \<Rightarrow> date_arg \<Rightarrow> int option" where
  "new_Date env d = (case d of DateObj t \<Rightarrow> t | DateStr s \<Rightarrow> Date_parse env s)"

definition msPerDay :: int where
  "msPerDay = 86400000"

definition local_day :: "js_env \<Rightarrow> int \<Rightarrow> int" where
  "local_day env t = (t + tz_offset env t) div msPerDay"

definition civil_from_days :: "int \<Rightarrow> int \<times> int \<times> int" where
  "civil_from_days n =
     (let z = n + 719468;
          era = z div 146097;
          doe = z - era * 146097;
          yoe = (doe - doe div 1460 + doe div 36524 - doe div 146096) div 365;
          y = yoe + era * 400;
          doy = doe - (365 * yoe + yoe div 4 - yoe div 100);
          mp = (5 * doy + 2) div 153;
          d = doy - (153 * mp + 2) div 5 + 1;
          m = (if mp < 10 then mp + 3 else mp - 9)
      in (if m \<le> 2 then y + 1 else y, m, d))"

definition getFullYear :: "js_env \<Rightarrow> int \<Rightarrow> int" where
  "getFullYear env t = fst (civil_from_days (local_day env t))"

definition getMonth :: "js_env \<Rightarrow> int \<Rightarrow> int" where
  "getMonth env t = fst (snd (civil_from_days (local_day env t))) - 1"

definition getDate :: "js_env \<Rightarrow> int \<Rightarrow> int" where
  "getDate env t = snd (snd (civil_from_days (local_day env t)))"

text \<open>\<^verbatim>\<open>String(n)\<close> for an integer and \<^verbatim>\<open>padStart(2, "0")\<close>.\<close>

fun digits :: "nat \<Rightarrow> string" where
  "digits n =
     (if n < 10 then [''0123456789'' ! n]
      else digits (n div 10) @ [''0123456789'' ! (n mod 10)])"

declare digits.simps [simp del]

definition String_of_int :: "int \<Rightarrow> string" where
  "String_of_int i = (if i < 0 then CHR ''-'' # digits (nat (- i)) else digits (nat i))"

definition padStart2 :: "string \<Rightarrow> string" where
  "padStart2 s = replicate (2 - length s) CHR ''0'' @ s"

text \<open>\<^verbatim>\<open>toLocalDate\<close>: a Date or a date string as YYYY-MM-DD in local time.\<close>

definition toLocalDate :: "js_env \<Rightarrow> date_arg \<Rightarrow> string" where
  "toLocalDate env date =
     (case new_Date env date of
        None \<Rightarrow> ''NaN-NaN-NaN''
      | Some d \<Rightarrow>
          String_of_int (getFullYear env d) @ ''-''
          @ padStart2 (String_of_int (getMonth env d + 1)) @ ''-''
          @ padStart2 (String_of_int (getDate env d)))"

section \<open>Nearby branches along a polyline\<close>

record BranchRow =
  Name :: string
  Lat :: string
  Lng :: string
  cars :: "string option"

text \<open>
  \<^verbatim>\<open>minDistanceLocation\<close> is \<^verbatim>\<open>minLoc!\<close> in the code, which is \<^verbatim>\<open>null\<close> when no path
  point was closer than \<^verbatim>\<open>Infinity\<close>.
\<close>

record NearbyBranchResult =
  Name :: string
  distanceToRoute_meters :: number
  minDistanceLocation :: "Point option"

text \<open>The scan for the path point that is nearest to the branch.\<close>

definition scan_step :: "Point \<Rightarrow> number \<times> Point option \<Rightarrow> Point \<Rightarrow> number \<times> Point option" where
  "scan_step coords st pt =
     (let d = getDistance pt coords
      in if js_lt d (fst st) then (d, Some pt) else st)"

definition nearest :: "Point list \<Rightarrow> Point \<Rightarrow> number \<times> Point option" where
  "nearest decoded coords = foldl (scan_step coords) (PInf, None) decoded"

text \<open>The coordinates of a branch: \<^verbatim>\<open>parseFloat\<close> of the two cells.\<close>

definition coordsOf :: "js_env \<Rightarrow> BranchRow \<Rightarrow> Point" where
  "coordsOf env b = \<lparr>Point.lat = parseFloat env (Lat b), lng = parseFloat env (Lng b)\<rparr>"

text \<open>The callback of \<^verbatim>\<open>branches.map\<close>: \<open>None\<close> is \<^verbatim>\<open>null\<close>.\<close>

definition evalBranch ::
  "js_env \<Rightarrow> number \<Rightarrow> Point list \<Rightarrow> Point \<Rightarrow> number \<Rightarrow> BranchRow \<Rightarrow> NearbyBranchResult option" where
  "evalBranch env DISTANCE_THRESHOLD decoded startPoint distStartToEnd b =
     (let coords = coordsOf env b
      in if isNaN (Point.lat coords) \<or> isNaN (Point.lng coords) then None
         else
           let distStartToBranch = getDistance startPoint coords
           in if js_gt distStartToBranch (js_mul distStartToEnd (Fin (6 / 10))) then None
              else
                let (minDist, minLoc) = nearest decoded coords
                in if js_gt minDist DISTANCE_THRESHOLD then None
                   else Some \<lparr>NearbyBranchResult.Name = BranchRow.Name b,
                              distanceToRoute_meters = minDist,
                              minDistanceLocation = minLoc\<rparr>)"

text \<open>
  \<^verbatim>\<open>findNearbyBranchesFromPolyline\<close>, on the decoded polyline and the rows of the branch
  table.
\<close>

definition findNearbyBranchesFromPolyline ::
  "js_env \<Rightarrow> number \<Rightarrow> Point list \<Rightarrow> BranchRow list \<Rightarrow> NearbyBranchResult list" where
  "findNearbyBranchesFromPolyline env DISTANCE_THRESHOLD decoded branches =
     (if length decoded < 2 then []
      else
        let startPoint = decoded ! 0;
            endPoint = decoded ! (length decoded - 1);
            distStartToEnd = getDistance startPoint endPoint
        in List.map_filter
             (evalBranch env DISTANCE_THRESHOLD decoded startPoint distStartToEnd) branches)"

section \<open>Best branch with an available high-range EV\<close>

record CarRow =
  id :: string
  type :: string
  range_km :: string
  trips_ids :: string

text \<open>The values of \<^verbatim>\<open>highRangeEvMap\<close>: the row and its parsed trip ids.\<close>

record CarWithTrips = CarRow +
  trips :: "string list"

record TripRow =
  car_id :: string
  departure_time :: "string option"
  arrival_time :: "string option"

text \<open>The elements of \<^verbatim>\<open>branchesWithEVs\<close>.\<close>

record BranchWithEVs =
  branch :: string
  lat :: number
  lng :: number
  distanceToRoute_meters :: number
  minDistanceLocation :: "Point option"
  electric_car_ids :: "string list"

record Candidate =
  branch :: string
  lat :: number
  lng :: number
  distanceToRoute_meters :: number
  minDistanceLocation :: "Point option"
  ev_id :: string
  trip_ids :: "string list"

text \<open>A scored candidate: the candidate's fields and the two computed ones.\<close>

record BestBranchResult = Candidate +
  distanceToMinLocation_meters :: number
  distanceRatio :: number

datatype js_error = TypeError

subsection \<open>Step 2: the nearby branches by name\<close>

text \<open>\<^verbatim>\<open>new Map(nearbyBranches.map((b) => [b.Name, b]))\<close>: a later entry replaces an earlier one.\<close>

definition nearbyMapOf :: "NearbyBranchResult list \<Rightarrow> (string \<rightharpoonup> NearbyBranchResult)" where
  "nearbyMapOf nearbyBranches =
     foldl (\<lambda>m b. m(NearbyBranchResult.Name b \<mapsto> b)) Map.empty nearbyBranches"

subsection \<open>Step 3: branches that have EVs\<close>

definition hasEv :: "js_env \<Rightarrow> BranchRow \<Rightarrow> bool" where
  "hasEv env b = list_ex (\<lambda>i. startsWithE (trim i)) (parseStringArray env (cars b))"

definition branchesWithEVs ::
  "js_env \<Rightarrow> (string \<rightharpoonup> NearbyBranchResult) \<Rightarrow> BranchRow list \<Rightarrow> BranchWithEVs list" where
  "branchesWithEVs env nearbyMap branches =
     List.map_filter
       (\<lambda>b.
          case nearbyMap (BranchRow.Name b) of
            None \<Rightarrow> None
          | Some nearbyInfo \<Rightarrow>
              if hasEv env b then
                Some \<lparr>BranchWithEVs.branch = BranchRow.Name b,
                      lat = parseFloat env (Lat b),
                      lng = parseFloat env (Lng b),
                      distanceToRoute_meters = NearbyBranchResult.distanceToRoute_meters nearbyInfo,
                      minDistanceLocation = NearbyBranchResult.minDistanceLocation nearbyInfo,
                      electric_car_ids =
                        filter (\<lambda>i. startsWithE (trim i)) (parseStringArray env (cars b))\<rparr>
              else None)
       branches"

subsection \<open>Step 4: the EVs that meet the range requirement\<close>

definition eligible :: "js_env \<Rightarrow> number \<Rightarrow> CarRow \<Rightarrow> bool" where
  "eligible env RANGE_THRESHOLD car =
     (type car = ''electric'' \<and> js_gt (parseFloat env (range_km car)) RANGE_THRESHOLD)"

definition highRangeEvMap :: "js_env \<Rightarrow> number \<Rightarrow> CarRow list \<Rightarrow> (string \<rightharpoonup> CarWithTrips)" where
  "highRangeEvMap env RANGE_THRESHOLD carRows =
     foldl
       (\<lambda>m car.
          if eligible env RANGE_THRESHOLD car then
            m(trim (CarRow.id car) \<mapsto>
                CarRow.extend car (CarWithTrips.fields (parseStringArray env (Some (trips_ids car)))))
          else m)
       Map.empty carRows"

subsection \<open>Step 5: the candidate list, branch by EV\<close>

definition candidatesOf :: "(string \<rightharpoonup> CarWithTrips) \<Rightarrow> BranchWithEVs \<Rightarrow> Candidate list" where
  "candidatesOf evMap b =
     List.map_filter
       (\<lambda>ev.
          case evMap (trim ev) of
            None \<Rightarrow> None
          | Some car \<Rightarrow>
              Some \<lparr>Candidate.branch = BranchWithEVs.branch b,
                    lat = BranchWithEVs.lat b,
                    lng = BranchWithEVs.lng b,
                    distanceToRoute_meters = BranchWithEVs.distanceToRoute_meters b,
                    minDistanceLocation = BranchWithEVs.minDistanceLocation b,
                    ev_id = trim ev,
                    trip_ids = trips car\<rparr>)
       (electric_car_ids b)"

definition buildCandidates :: "(string \<rightharpoonup> CarWithTrips) \<Rightarrow> BranchWithEVs list \<Rightarrow> Candidate list" where
  "buildCandidates evMap bs = concat (map (candidatesOf evMap) bs)"

subsection \<open>Step 6: the candidates booked on the date are removed\<close>

text \<open>\<^verbatim>\<open>trip.departure_time?.trim() || trip.arrival_time?.trim()\<close>\<close>

definition timeStrOf :: "TripRow \<Rightarrow> string option" where
  "timeStrOf trip =
     (case departure_time trip of
        Some s \<Rightarrow> if trim s \<noteq> [] then Some (trim s) else map_option trim (arrival_time trip)
      | None \<Rightarrow> map_option trim (arrival_time trip))"

text \<open>The date a trip adds to the list of its car, if the trip is not skipped.\<close>

definition tripEntry :: "js_env \<Rightarrow> TripRow \<Rightarrow> (string \<times> string) option" where
  "tripEntry env trip =
     (let i = trim (car_id trip); timeStr = timeStrOf trip
      in case timeStr of
           None \<Rightarrow> None
         | Some ts \<Rightarrow>
             if i = [] \<or> ts = [] \<or> Date_parse env ts = None then None
             else Some (i, toLocalDate env (DateStr ts)))"

text \<open>The callback of \<^verbatim>\<open>trips.forEach\<close>, on the map built so far.\<close>

definition bookTrip :: "js_env \<Rightarrow> (string \<rightharpoonup> string list) \<Rightarrow> TripRow \<Rightarrow> (string \<rightharpoonup> string list)" where
  "bookTrip env m trip =
     (case tripEntry env trip of
        None \<Rightarrow> m
      | Some (i, d) \<Rightarrow> m(i \<mapsto> (case m i of None \<Rightarrow> [] | Some ds \<Rightarrow> ds) @ [d]))"

definition bookedMap :: "js_env \<Rightarrow> TripRow list \<Rightarrow> (string \<rightharpoonup> string list)" where
  "bookedMap env tripRows = foldl (bookTrip env) Map.empty tripRows"

definition freeCandidates ::
  "(string \<rightharpoonup> string list) \<Rightarrow> string \<Rightarrow> Candidate list \<Rightarrow> Candidate list" where
  "freeCandidates booked desiredDate candidates =
     filter
       (\<lambda>c. desiredDate \<notin> set (case booked (ev_id c) of None \<Rightarrow> [] | Some ds \<Rightarrow> ds))
       candidates"

subsection \<open>Step 7: score and pick the best\<close>

text \<open>
  The callback of \<^verbatim>\<open>freeCandidates.map\<close>.  Reading \<^verbatim>\<open>lat\<close> of a \<^verbatim>\<open>null\<close>
  \<^verbatim>\<open>minDistanceLocation\<close> throws a TypeError.
\<close>

definition score :: "Candidate \<Rightarrow> js_error + BestBranchResult" where
  "score c =
     (case Candidate.minDistanceLocation c of
        None \<Rightarrow> Inl TypeError
      | Some loc \<Rightarrow>
          let distToMin = getDistance \<lparr>Point.lat = Candidate.lat c, lng = Candidate.lng c\<rparr> loc
          in Inr (Candidate.extend c
                    (BestBranchResult.fields distToMin
                       (js_div (Candidate.distanceToRoute_meters c) distToMin))))"

text \<open>\<^verbatim>\<open>map\<close> with a callback that may throw: the first exception ends it.\<close>

fun mapE :: "('a \<Rightarrow> 'e + 'b) \<Rightarrow> 'a list \<Rightarrow> 'e + 'b list" where
  "mapE f [] = Inr []"
| "mapE f (x # xs) =
     (case f x of
        Inl e \<Rightarrow> Inl e
      | Inr y \<Rightarrow> (case mapE f xs of Inl e \<Rightarrow> Inl e | Inr ys \<Rightarrow> Inr (y # ys)))"

definition better :: "BestBranchResult \<Rightarrow> BestBranchResult \<Rightarrow> BestBranchResult" where
  "better best cur = (if js_lt (distanceRatio cur) (distanceRatio best) then cur else best)"

text \<open>
  The end of \<^verbatim>\<open>getBestBranchWithAvailableEV\<close>, from the free candidates on:
  \<open>Inr None\<close> is the result \<^verbatim>\<open>null\<close>.
\<close>

definition selectBest :: "Candidate list \<Rightarrow> js_error + BestBranchResult option" where
  "selectBest free =
     (if length free = 0 then Inr None
      else
        case mapE score free of
          Inl e \<Rightarrow> Inl e
        | Inr scored \<Rightarrow>
            (case scored of
               [] \<Rightarrow> Inl TypeError
             | s # ss \<Rightarrow> Inr (Some (foldl better s ss))))"

subsection \<open>The whole function\<close>

text \<open>
  \<^verbatim>\<open>getBestBranchWithAvailableEV\<close> on the decoded polyline and on the rows of the three
  tables it loads.
\<close>

definition candidatesFor ::
  "js_env \<Rightarrow> number \<Rightarrow> number \<Rightarrow> Point list \<Rightarrow> BranchRow list \<Rightarrow> CarRow list \<Rightarrow> Candidate list" where
  "candidatesFor env DISTANCE_THRESHOLD RANGE_THRESHOLD decoded branches carRows =
     (let nearbyBranches = findNearbyBranchesFromPolyline env DISTANCE_THRESHOLD decoded branches;
          nearbyMap = nearbyMapOf nearbyBranches
      in buildCandidates (highRangeEvMap env RANGE_THRESHOLD carRows)
           (branchesWithEVs env nearbyMap branches))"

definition freeCandidatesFor ::
  "js_env \<Rightarrow> number \<Rightarrow> number \<Rightarrow> date_arg \<Rightarrow> Point list \<Rightarrow> BranchRow list \<Rightarrow> CarRow list
     \<Rightarrow> TripRow list \<Rightarrow> Candidate list" where
  "freeCandidatesFor env DISTANCE_THRESHOLD RANGE_THRESHOLD TIME decoded branches carRows tripRows =
     freeCandidates (bookedMap env tripRows) (toLocalDate env TIME)
       (candidatesFor env DISTANCE_THRESHOLD RANGE_THRESHOLD decoded branches carRows)"

definition getBestBranchWithAvailableEV ::
  "js_env \<Rightarrow> number \<Rightarrow> number \<Rightarrow> date_arg \<Rightarrow> Point list \<Rightarrow> BranchRow list \<Rightarrow> CarRow list
     \<Rightarrow> TripRow list \<Rightarrow> js_error + BestBranchResult option" where
  "getBestBranchWithAvailableEV env DISTANCE_THRESHOLD RANGE_THRESHOLD TIME decoded branches
       carRows tripRows =
     selectBest
       (freeCandidatesFor env DISTANCE_THRESHOLD RANGE_THRESHOLD TIME decoded branches carRows
          tripRows)"

section \<open>The join as the specification words it\<close>

text \<open>
  For a branch that is among the nearby results: one candidate for each vehicle id of
  the branch that has the electric prefix and is in the index of eligible EVs.  Any other
  branch contributes nothing.
\<close>

definition joinRow ::
  "js_env \<Rightarrow> (string \<rightharpoonup> NearbyBranchResult) \<Rightarrow> (string \<rightharpoonup> CarWithTrips) \<Rightarrow> BranchRow
     \<Rightarrow> Candidate list" where
  "joinRow env nearbyMap evMap b =
     (case nearbyMap (BranchRow.Name b) of
        None \<Rightarrow> []
      | Some nearbyInfo \<Rightarrow>
          map (\<lambda>ev. \<lparr>Candidate.branch = BranchRow.Name b,
                     lat = parseFloat env (Lat b),
                     lng = parseFloat env (Lng b),
                     distanceToRoute_meters = NearbyBranchResult.distanceToRoute_meters nearbyInfo,
                     minDistanceLocation = NearbyBranchResult.minDistanceLocation nearbyInfo,
                     ev_id = trim ev,
                     trip_ids = trips (the (evMap (trim ev)))\<rparr>)
            (filter (\<lambda>ev. startsWithE (trim ev) \<and> evMap (trim ev) \<noteq> None)
               (parseStringArray env (cars b))))"

section \<open>Sample data\<close>

text \<open>
  A runtime and a few rows, on which the functions are evaluated below.  The route runs
  along the equator from longitude 0 to longitude 1 (about 111 km) through longitude
  0.5; on the equator the haversine distance is the arc between the longitudes.
\<close>

definition squoted :: "string \<Rightarrow> string" where
  "squoted s = CHR 0x27 # s @ [CHR 0x27]"

definition dquoted :: "string \<Rightarrow> string" where
  "dquoted s = CHR 0x22 # s @ [CHR 0x22]"

definition sample_parseFloat :: "string \<Rightarrow> number" where
  "sample_parseFloat s =
     (if s = ''0'' then Fin 0 else if s = ''0.5'' then Fin (1 / 2)
      else if s = ''0.505'' then Fin (101 / 200) else if s = ''1'' then Fin 1
      else if s = ''100'' then Fin 100 else if s = ''150'' then Fin 150 else NaN)"

definition sample_JSON_parse :: "string \<Rightarrow> string list option" where
  "sample_JSON_parse s =
     (if s = ''['' @ dquoted ''E1'' @ '']'' then Some [''E1'']
      else if s = ''['' @ dquoted ''E2'' @ '']'' then Some [''E2'']
      else if s = ''['' @ dquoted ''E3'' @ '']'' then Some [''E3'']
      else if s = ''['' @ dquoted ''E1'' @ '','' @ dquoted ''E2'' @ '']'' then Some [''E1'', ''E2'']
      else if s = ''['' @ dquoted ''E1'' @ '','' @ dquoted ''E3'' @ '']'' then Some [''E1'', ''E3'']
      else None)"

definition sample_Date_parse :: "string \<Rightarrow> int option" where
  "sample_Date_parse s =
     (if s = ''2024-06-01T08:00:00Z'' then Some 1717228800000
      else if s = ''2024-06-01'' then Some 1717200000000
      else None)"

text \<open>The runtime in the time zone UTC, and ten and four hours behind it.\<close>

definition sample_env :: js_env where
  "sample_env =
     \<lparr>parseFloat = sample_parseFloat, JSON_parse = sample_JSON_parse,
      Date_parse = sample_Date_parse, tz_offset = (\<lambda>t. 0)\<rparr>"

definition honolulu_env :: js_env where
  "honolulu_env = sample_env\<lparr>tz_offset := (\<lambda>t. - 36000000)\<rparr>"

definition new_york_env :: js_env where
  "new_york_env = sample_env\<lparr>tz_offset := (\<lambda>t. - 14400000)\<rparr>"

definition sample_like :: "js_env \<Rightarrow> bool" where
  "sample_like env =
     (parseFloat env = sample_parseFloat \<and> JSON_parse env = sample_JSON_parse
      \<and> Date_parse env = sample_Date_parse)"

text \<open>The point of the equator at a longitude, and the arc of a number of degrees in metres.\<close>

definition eq_pt :: "real \<Rightarrow> Point" where
  "eq_pt x = \<lparr>Point.lat = Fin 0, lng = Fin x\<rparr>"

definition arc :: "real \<Rightarrow> real" where
  "arc x = 6371000 * (x * pi / 180)"

definition sample_path :: "Point list" where
  "sample_path = [eq_pt 0, eq_pt (1 / 2), eq_pt 1]"

definition cell_E1 :: string where
  "cell_E1 = ''['' @ squoted ''E1'' @ '']''"

definition cell_E2 :: string where
  "cell_E2 = ''['' @ squoted ''E2'' @ '']''"

definition cell_E3 :: string where
  "cell_E3 = ''['' @ squoted ''E3'' @ '']''"

definition cell_E1_E2 :: string where
  "cell_E1_E2 = ''['' @ squoted ''E1'' @ '','' @ squoted ''E2'' @ '']''"

definition cell_E1_E3 :: string where
  "cell_E1_E3 = ''['' @ squoted ''E1'' @ '','' @ squoted ''E3'' @ '']''"

definition branch_at :: "string \<Rightarrow> string \<Rightarrow> string \<Rightarrow> BranchRow" where
  "branch_at n lngCell carsCell =
     \<lparr>BranchRow.Name = n, Lat = ''0'', Lng = lngCell, cars = Some carsCell\<rparr>"

definition car_E1 :: CarRow where
  "car_E1 = \<lparr>CarRow.id = ''E1'', type = ''electric'', range_km = ''150'', trips_ids = []\<rparr>"

definition car_E2 :: CarRow where
  "car_E2 = \<lparr>CarRow.id = ''E2'', type = ''electric'', range_km = ''150'', trips_ids = []\<rparr>"

definition car_E3 :: CarRow where
  "car_E3 = \<lparr>CarRow.id = ''E3'', type = ''electric'', range_km = ''100'', trips_ids = []\<rparr>"

definition car_G1 :: CarRow where
  "car_G1 = \<lparr>CarRow.id = ''G1'', type = ''gasoline'', range_km = ''150'', trips_ids = []\<rparr>"

definition trip_E1 :: TripRow where
  "trip_E1 =
     \<lparr>car_id = ''E1'', departure_time = Some ''2024-06-01T08:00:00Z'', arrival_time = None\<rparr>"

definition trip_arrival :: TripRow where
  "trip_arrival =
     \<lparr>car_id = ''E1'', departure_time = Some ''  '',
      arrival_time = Some ''2024-06-01T08:00:00Z''\<rparr>"

definition trip_neither :: TripRow where
  "trip_neither = \<lparr>car_id = ''E1'', departure_time = None, arrival_time = None\<rparr>"

definition trip_unparseable :: TripRow where
  "trip_unparseable =
     \<lparr>car_id = ''E1'', departure_time = Some ''soon'',
      arrival_time = Some ''2024-06-01T08:00:00Z''\<rparr>"

definition trip_blank_id :: TripRow where
  "trip_blank_id =
     \<lparr>car_id = ''  '', departure_time = Some ''2024-06-01T08:00:00Z'', arrival_time = None\<rparr>"

text \<open>A candidate and a scored candidate of a branch on the equator.\<close>

definition cand_at :: "string \<Rightarrow> real \<Rightarrow> number \<Rightarrow> Point \<Rightarrow> string \<Rightarrow> Candidate" where
  "cand_at n x dtr loc ev =
     \<lparr>Candidate.branch = n, lat = Fin 0, lng = Fin x, distanceToRoute_meters = dtr,
      minDistanceLocation = Some loc, ev_id = ev, trip_ids = []\<rparr>"

definition scored_at ::
  "string \<Rightarrow> real \<Rightarrow> number \<Rightarrow> Point \<Rightarrow> string \<Rightarrow> number \<Rightarrow> number \<Rightarrow> BestBranchResult" where
  "scored_at n x dtr loc ev distToMin ratio =
     \<lparr>Candidate.branch = n, lat = Fin 0, lng = Fin x, distanceToRoute_meters = dtr,
      minDistanceLocation = Some loc, ev_id = ev, trip_ids = [],
      distanceToMinLocation_meters = distToMin, distanceRatio = ratio\<rparr>"

section \<open>Facts about the distance formula\<close>

lemma js_mul_commute: "js_mul a b = js_mul b a"
  by (cases a; cases b) (simp_all add: mult.commute)

lemma half_angle_term_sym:
  "js_pow2 (js_sin (js_div (js_div (js_mul (js_sub x y) Math_PI) (Fin 180)) (Fin 2)))
   = js_pow2 (js_sin (js_div (js_div (js_mul (js_sub y x) Math_PI) (Fin 180)) (Fin 2)))"
proof (cases x; cases y)
  fix a b :: real
  assume xy: "x = Fin a" "y = Fin b"
  have "sin ((a - b) * pi / 180 / 2) = - sin ((b - a) * pi / 180 / 2)"
  proof -
    have "(a - b) * pi / 180 / 2 = - ((b - a) * pi / 180 / 2)"
      by (simp add: field_simps)
    then show ?thesis
      by (simp only: sin_minus)
  qed
  then show ?thesis
    using xy by (simp add: js_sub_def Math_PI_def)
qed (simp_all add: js_sub_def Math_PI_def inf_of_sign_def)

lemma getDistance_sym: "getDistance p q = getDistance q p"
proof -
  have c: "js_mul (js_cos (js_div (js_mul (Point.lat p) Math_PI) (Fin 180)))
                  (js_cos (js_div (js_mul (Point.lat q) Math_PI) (Fin 180)))
         = js_mul (js_cos (js_div (js_mul (Point.lat q) Math_PI) (Fin 180)))
                  (js_cos (js_div (js_mul (Point.lat p) Math_PI) (Fin 180)))"
    by (rule js_mul_commute)
  show ?thesis
    unfolding getDistance_def Let_def
    by (simp only: c half_angle_term_sym [of "Point.lat q" "Point.lat p"]
        half_angle_term_sym [of "Point.lng q" "Point.lng p"])
qed

lemma atan2r_sin_cos:
  assumes "0 \<le> h" and "h \<le> pi / 2"
  shows "atan2r (sin h) (cos h) = h"
proof (cases "h = pi / 2")
  case True
  have "sin (pi / 2) = 1" "cos (pi / 2) = 0" by simp_all
  then show ?thesis unfolding True by (simp add: atan2r_def)
next
  case False
  with assms have h: "- (pi / 2) < h" "h < pi / 2" by simp_all
  then have "0 < cos h" by (simp add: cos_gt_zero_pi)
  moreover have "arctan (sin h / cos h) = h"
    using arctan_tan [OF h] by (simp add: tan_def)
  ultimately show ?thesis by (simp add: atan2r_def)
qed

lemma getDistance_equator:
  assumes "a \<le> b" and "b - a \<le> 180"
  shows "getDistance \<lparr>Point.lat = Fin 0, lng = Fin a\<rparr> \<lparr>Point.lat = Fin 0, lng = Fin b\<rparr>
         = Fin (6371000 * ((b - a) * pi / 180))"
proof -
  define h where "h = (b - a) * pi / 180 / 2"
  have "0 \<le> (b - a) * pi" "(b - a) * pi \<le> 180 * pi"
    using assms by (simp_all add: mult_right_mono)
  then have h: "0 \<le> h" "h \<le> pi / 2"
    by (simp_all add: h_def)
  then have s: "0 \<le> sin h" and c: "0 \<le> cos h"
    by (simp_all add: sin_ge_zero cos_ge_zero)
  have 1: "sqrt ((sin h)\<^sup>2) = sin h" using s by simp
  have "1 - (sin h)\<^sup>2 = (cos h)\<^sup>2"
    using sin_cos_squared_add [of h] by linarith
  then have 2: "sqrt (1 - (sin h)\<^sup>2) = cos h" using c by simp
  have 3: "\<not> 1 - (sin h)\<^sup>2 < 0"
    using \<open>1 - (sin h)\<^sup>2 = (cos h)\<^sup>2\<close> by simp
  have "getDistance \<lparr>Point.lat = Fin 0, lng = Fin a\<rparr> \<lparr>Point.lat = Fin 0, lng = Fin b\<rparr>
        = Fin (6371000 * (2 * atan2r (sqrt ((sin h)\<^sup>2)) (sqrt (1 - (sin h)\<^sup>2))))"
    using 3 by (simp add: getDistance_def Math_PI_def js_sub_def h_def)
  also have "\<dots> = Fin (6371000 * (2 * h))"
    by (simp only: 1 2 atan2r_sin_cos [OF h])
  also have "\<dots> = Fin (6371000 * ((b - a) * pi / 180))"
    by (simp add: h_def)
  finally show ?thesis .
qed


section \<open>Facts about lists and comparisons\<close>

lemma map_filter_append:
  "List.map_filter f (xs @ ys) = List.map_filter f xs @ List.map_filter f ys"
  by (simp add: List.map_filter_def)

lemma set_map_filter: "set (List.map_filter f xs) = {y. \<exists>x\<in>set xs. f x = Some y}"
  by (induction xs) (auto split: option.splits)

lemma map_filter_filter:
  "List.map_filter f (filter P xs) = map (the \<circ> f) (filter (\<lambda>x. P x \<and> f x \<noteq> None) xs)"
  by (simp add: List.map_filter_def conj_commute)

lemma filter_no_ex: "\<not> list_ex P xs \<Longrightarrow> filter (\<lambda>x. P x \<and> Q x) xs = []"
  by (induction xs) auto

lemma map_filter_case:
  "List.map_filter (\<lambda>ev. case m (trim ev) of None \<Rightarrow> None | Some car \<Rightarrow> Some (g ev car))
     (filter P xs)
   = map (\<lambda>ev. g ev (the (m (trim ev)))) (filter (\<lambda>ev. P ev \<and> m (trim ev) \<noteq> None) xs)"
  by (induction xs) auto

lemma js_lt_irrefl: "\<not> js_lt a a"
  by (cases a) simp_all

lemma js_le_lt_trans: "js_le a b \<Longrightarrow> js_lt b c \<Longrightarrow> js_lt a c"
  by (cases a; cases b; cases c) (simp_all add: js_le_def)

lemma js_lt_le_trans: "js_lt a b \<Longrightarrow> js_le b c \<Longrightarrow> js_lt a c"
  by (cases a; cases b; cases c) (simp_all add: js_le_def)

lemma js_lt_trans: "js_lt a b \<Longrightarrow> js_lt b c \<Longrightarrow> js_lt a c"
  by (cases a; cases b; cases c) simp_all


section \<open>The route-proximity filter\<close>

lemma evalBranch_beyond:
  "js_gt (getDistance startPoint (coordsOf env b)) (js_mul distStartToEnd (Fin (6 / 10)))
   \<Longrightarrow> evalBranch env thr decoded startPoint distStartToEnd b = None"
  by (simp add: evalBranch_def Let_def)

lemma evalBranch_mono:
  assumes "js_le t1 t2" and "evalBranch env t1 decoded s dse b = Some r"
  shows "evalBranch env t2 decoded s dse b = Some r"
proof -
  obtain m l where n: "nearest decoded (coordsOf env b) = (m, l)"
    by (cases "nearest decoded (coordsOf env b)")
  from assms(2) n have "\<not> js_lt t1 m"
    by (auto simp: evalBranch_def Let_def js_gt_def split: if_splits)
  with assms(1) have "\<not> js_lt t2 m"
    using js_le_lt_trans by blast
  with assms(2) n show ?thesis
    by (auto simp: evalBranch_def Let_def js_gt_def split: if_splits)
qed

lemma findNearby_mono:
  assumes "js_le t1 t2"
  shows "set (findNearbyBranchesFromPolyline env t1 decoded bs)
         \<subseteq> set (findNearbyBranchesFromPolyline env t2 decoded bs)"
proof
  fix r
  assume "r \<in> set (findNearbyBranchesFromPolyline env t1 decoded bs)"
  then obtain b where 2: "\<not> length decoded < 2" and b: "b \<in> set bs"
    and e: "evalBranch env t1 decoded (decoded ! 0)
           (getDistance (decoded ! 0) (decoded ! (length decoded - 1))) b = Some r"
    by (auto simp: findNearbyBranchesFromPolyline_def Let_def set_map_filter split: if_splits)
  from e have "evalBranch env t2 decoded (decoded ! 0)
           (getDistance (decoded ! 0) (decoded ! (length decoded - 1))) b = Some r"
    by (rule evalBranch_mono [OF assms])
  with 2 b show "r \<in> set (findNearbyBranchesFromPolyline env t2 decoded bs)"
    by (auto simp: findNearbyBranchesFromPolyline_def Let_def set_map_filter)
qed


section \<open>The index of eligible EVs and the join\<close>

lemma dom_ev_fold:
  "dom (foldl (\<lambda>m car. if eligible env r car then
            m(trim (CarRow.id car) \<mapsto>
                CarRow.extend car (CarWithTrips.fields (parseStringArray env (Some (trips_ids car)))))
          else m) m0 cs)
   = dom m0 \<union> {trim (CarRow.id c) | c. c \<in> set cs \<and> eligible env r c}"
  by (induction cs arbitrary: m0) auto

lemma dom_highRangeEvMap:
  "dom (highRangeEvMap env r cs) = {trim (CarRow.id c) | c. c \<in> set cs \<and> eligible env r c}"
  by (simp add: highRangeEvMap_def dom_ev_fold)

lemma ev_fold_value:
  "foldl (\<lambda>m car. if eligible env r car then
            m(trim (CarRow.id car) \<mapsto>
                CarRow.extend car (CarWithTrips.fields (parseStringArray env (Some (trips_ids car)))))
          else m) m0 cs k = Some v
   \<Longrightarrow> m0 k = Some v \<or> (\<exists>c\<in>set cs. eligible env r c \<and> trim (CarRow.id c) = k
          \<and> v = CarRow.extend c (CarWithTrips.fields (parseStringArray env (Some (trips_ids c)))))"
proof (induction cs arbitrary: m0)
  case Nil
  then show ?case by simp
next
  case (Cons c cs)
  from Cons.IH [OF Cons.prems [simplified]] show ?case
    by (auto split: if_splits)
qed

lemma highRangeEvMap_value:
  "highRangeEvMap env r cs k = Some v
   \<Longrightarrow> \<exists>c\<in>set cs. eligible env r c \<and> trim (CarRow.id c) = k
          \<and> v = CarRow.extend c (CarWithTrips.fields (parseStringArray env (Some (trips_ids c))))"
  using ev_fold_value [of env r Map.empty cs k v] by (simp add: highRangeEvMap_def)

lemma eligible_mono: "js_le r1 r2 \<Longrightarrow> eligible env r2 c \<Longrightarrow> eligible env r1 c"
  using js_le_lt_trans by (auto simp: eligible_def js_gt_def)

lemma candidatesOf_join:
  assumes "nearbyMap (BranchRow.Name b) = Some info"
  shows "candidatesOf evMap
           \<lparr>BranchWithEVs.branch = BranchRow.Name b,
            lat = parseFloat env (Lat b),
            lng = parseFloat env (Lng b),
            distanceToRoute_meters = NearbyBranchResult.distanceToRoute_meters info,
            minDistanceLocation = NearbyBranchResult.minDistanceLocation info,
            electric_car_ids =
              filter (\<lambda>i. startsWithE (trim i)) (parseStringArray env (cars b))\<rparr>
         = joinRow env nearbyMap evMap b"
  using assms
  by (simp add: candidatesOf_def joinRow_def map_filter_case [where m = evMap])

lemma join_no_ev:
  "\<not> hasEv env b \<Longrightarrow> joinRow env nearbyMap evMap b = []"
  by (simp add: joinRow_def hasEv_def filter_no_ex split: option.splits)

lemma buildCandidates_join:
  "buildCandidates evMap (branchesWithEVs env nearbyMap bs)
   = concat (map (joinRow env nearbyMap evMap) bs)"
proof (induction bs)
  case Nil
  show ?case by (simp add: buildCandidates_def branchesWithEVs_def)
next
  case (Cons b bs)
  show ?case
  proof (cases "nearbyMap (BranchRow.Name b)")
    case None
    with Cons show ?thesis
      by (simp add: buildCandidates_def branchesWithEVs_def joinRow_def)
  next
    case (Some info)
    show ?thesis
    proof (cases "hasEv env b")
      case True
      with Some Cons candidatesOf_join [of nearbyMap b info evMap env] show ?thesis
        by (simp add: buildCandidates_def branchesWithEVs_def)
    next
      case False
      with Some Cons show ?thesis
        by (simp add: buildCandidates_def branchesWithEVs_def join_no_ev)
    qed
  qed
qed

lemma nearbyMap_fold_dom:
  "dom (foldl (\<lambda>m b. m(NearbyBranchResult.Name b \<mapsto> b)) m0 rs)
   = dom m0 \<union> NearbyBranchResult.Name ` set rs"
  by (induction rs arbitrary: m0) auto

lemma dom_nearbyMapOf: "dom (nearbyMapOf rs) = NearbyBranchResult.Name ` set rs"
  by (simp add: nearbyMapOf_def nearbyMap_fold_dom)

lemma nearbyMap_fold_value:
  "foldl (\<lambda>m b. m(NearbyBranchResult.Name b \<mapsto> b)) m0 rs k = Some r
   \<Longrightarrow> m0 k = Some r \<or> (r \<in> set rs \<and> NearbyBranchResult.Name r = k)"
proof (induction rs arbitrary: m0)
  case Nil
  then show ?case by simp
next
  case (Cons a rs)
  from Cons.prems
  have "foldl (\<lambda>m b. m(NearbyBranchResult.Name b \<mapsto> b)) (m0(NearbyBranchResult.Name a \<mapsto> a)) rs k
        = Some r"
    by (simp only: foldl_Cons)
  from Cons.IH [OF this] show ?case
    by (auto split: if_splits)
qed

lemma nearbyMapOf_value:
  "nearbyMapOf rs k = Some r \<Longrightarrow> r \<in> set rs \<and> NearbyBranchResult.Name r = k"
  using nearbyMap_fold_value [of Map.empty rs k r] by (simp add: nearbyMapOf_def)

lemma joinRow_ev_ids:
  "map ev_id (joinRow env nearbyMap evMap b)
   = (if nearbyMap (BranchRow.Name b) = None then []
      else map trim (filter (\<lambda>ev. startsWithE (trim ev) \<and> trim ev \<in> dom evMap)
                       (parseStringArray env (cars b))))"
  by (auto simp: joinRow_def comp_def dom_def split: option.splits)

lemma candidatesFor_join:
  "candidatesFor env dthr rthr decoded branches carRows
   = concat (map (joinRow env (nearbyMapOf (findNearbyBranchesFromPolyline env dthr decoded branches))
                    (highRangeEvMap env rthr carRows)) branches)"
  by (simp add: candidatesFor_def Let_def buildCandidates_join)

lemma candidate_ev_in_index:
  assumes "c \<in> set (candidatesFor env dthr rthr decoded branches carRows)"
  shows "ev_id c \<in> dom (highRangeEvMap env rthr carRows)"
proof -
  from assms obtain b where
    "c \<in> set (joinRow env (nearbyMapOf (findNearbyBranchesFromPolyline env dthr decoded branches))
               (highRangeEvMap env rthr carRows) b)"
    by (auto simp: candidatesFor_join)
  then have "ev_id c \<in> set (map ev_id (joinRow env
      (nearbyMapOf (findNearbyBranchesFromPolyline env dthr decoded branches))
               (highRangeEvMap env rthr carRows) b))"
    by simp
  then show ?thesis
    by (auto simp: joinRow_ev_ids split: if_splits)
qed

lemma length_joinRow:
  "length (joinRow env nearbyMap evMap b)
   = (if nearbyMap (BranchRow.Name b) = None then 0
      else length (filter (\<lambda>ev. startsWithE (trim ev) \<and> trim ev \<in> dom evMap)
                     (parseStringArray env (cars b))))"
  using arg_cong [OF joinRow_ev_ids [of env nearbyMap evMap b], of length]
  by (simp split: if_splits)

lemma joinRow_not_nearby:
  "BranchRow.Name b \<notin> NearbyBranchResult.Name ` set rs \<Longrightarrow> joinRow env (nearbyMapOf rs) evMap b = []"
  using dom_nearbyMapOf [of rs] by (auto simp: joinRow_def split: option.splits)


section \<open>Bookings\<close>

lemma bookTrip_dates:
  "(case bookTrip env m t k of None \<Rightarrow> [] | Some ds \<Rightarrow> ds)
   = (case m k of None \<Rightarrow> [] | Some ds \<Rightarrow> ds)
     @ map snd (filter (\<lambda>e. fst e = k) (List.map_filter (tripEntry env) [t]))"
  by (auto simp: bookTrip_def split: option.splits)

lemma booked_fold:
  "(case foldl (bookTrip env) m0 ts k of None \<Rightarrow> [] | Some ds \<Rightarrow> ds)
   = (case m0 k of None \<Rightarrow> [] | Some ds \<Rightarrow> ds)
     @ map snd (filter (\<lambda>e. fst e = k) (List.map_filter (tripEntry env) ts))"
proof (induction ts arbitrary: m0)
  case Nil
  show ?case by simp
next
  case (Cons t ts)
  have "(case foldl (bookTrip env) m0 (t # ts) k of None \<Rightarrow> [] | Some ds \<Rightarrow> ds)
        = (case bookTrip env m0 t k of None \<Rightarrow> [] | Some ds \<Rightarrow> ds)
          @ map snd (filter (\<lambda>e. fst e = k) (List.map_filter (tripEntry env) ts))"
    using Cons.IH [of "bookTrip env m0 t"] by simp
  also have "\<dots> = (case m0 k of None \<Rightarrow> [] | Some ds \<Rightarrow> ds)
          @ map snd (filter (\<lambda>e. fst e = k) (List.map_filter (tripEntry env) (t # ts)))"
    unfolding bookTrip_dates by (simp split: option.splits)
  finally show ?case .
qed

lemma booked_dates:
  "(case bookedMap env ts k of None \<Rightarrow> [] | Some ds \<Rightarrow> ds)
   = map snd (filter (\<lambda>e. fst e = k) (List.map_filter (tripEntry env) ts))"
  using booked_fold [of env Map.empty ts k] by (simp add: bookedMap_def)

lemma tripEntry_cases:
  "tripEntry env t =
     (if trim (car_id t) = [] then None
      else case timeStrOf t of
             None \<Rightarrow> None
           | Some ts \<Rightarrow> if ts = [] \<or> Date_parse env ts = None then None
                        else Some (trim (car_id t), toLocalDate env (DateStr ts)))"
  by (simp add: tripEntry_def Let_def split: option.splits)

lemma toLocalDate_same_day:
  assumes "new_Date env a = Some x" and "new_Date env b = Some y"
    and "local_day env x = local_day env y"
  shows "toLocalDate env a = toLocalDate env b"
  using assms by (simp add: toLocalDate_def getFullYear_def getMonth_def getDate_def)

lemma booked_on:
  assumes "t \<in> set tripRows" and "tripEntry env t = Some (k, d)"
  shows "d \<in> set (case bookedMap env tripRows k of None \<Rightarrow> [] | Some ds \<Rightarrow> ds)"
proof -
  from assms have "(k, d) \<in> set (List.map_filter (tripEntry env) tripRows)"
    by (auto simp: set_map_filter)
  then have "d \<in> snd ` set (filter (\<lambda>e. fst e = k) (List.map_filter (tripEntry env) tripRows))"
    by force
  then show ?thesis
    by (simp add: booked_dates)
qed

lemma booked_candidate_removed:
  assumes "t \<in> set tripRows" and "trim (car_id t) = ev_id c" and "ev_id c \<noteq> []"
    and "timeStrOf t = Some ts" and "ts \<noteq> []" and "Date_parse env ts = Some ms"
    and "new_Date env TIME = Some ms'" and "local_day env ms = local_day env ms'"
  shows "c \<notin> set (freeCandidates (bookedMap env tripRows) (toLocalDate env TIME) cands)"
proof -
  have "toLocalDate env (DateStr ts) = toLocalDate env TIME"
    using assms(6-8) by (intro toLocalDate_same_day [of env _ ms _ ms']) (simp_all add: new_Date_def)
  with assms(2-6) have "tripEntry env t = Some (ev_id c, toLocalDate env TIME)"
    by (simp add: tripEntry_cases)
  from booked_on [OF assms(1) this] show ?thesis
    by (simp add: freeCandidates_def)
qed

lemma selectBest_Nil: "selectBest [] = Inr None"
  by (simp add: selectBest_def)

lemma utc_day:
  assumes "tz_offset env = (\<lambda>t. 0)" and "1717200000000 \<le> t" and "t < 1717286400000"
  shows "local_day env t = 19875"
  using assms by (simp add: local_day_def msPerDay_def)


section \<open>Scoring and selection\<close>

lemma js_lt_PInf: "js_lt d x \<Longrightarrow> js_lt d PInf"
  by (cases d; cases x) simp_all

lemma js_div_self: "js_div d d = Fin 1 \<or> js_div d d = NaN"
  by (cases d) (simp_all add: inf_of_sign_def)

lemma js_lt_div_self: "\<not> js_lt (js_div d d) (js_div e e)"
  using js_div_self [of d] js_div_self [of e] by auto

lemma getDistance_Fin_or_NaN: "(\<exists>r. getDistance p q = Fin r) \<or> getDistance p q = NaN"
proof -
  have "(\<exists>r. js_mul (Fin 6371000) (js_mul (Fin 2) (js_atan2 y x)) = Fin r)
        \<or> js_mul (Fin 6371000) (js_mul (Fin 2) (js_atan2 y x)) = NaN" for y x
    by (cases y; cases x) simp_all
  then show ?thesis
    by (simp add: getDistance_def Let_def)
qed

lemma scan_invariant:
  assumes "(snd st = None \<and> fst st = PInf)
           \<or> (\<exists>pt. snd st = Some pt \<and> fst st = getDistance pt coords \<and> js_lt (fst st) PInf)"
  shows "(snd (foldl (scan_step coords) st pts) = None
            \<and> fst (foldl (scan_step coords) st pts) = PInf)
         \<or> (\<exists>pt. snd (foldl (scan_step coords) st pts) = Some pt
               \<and> fst (foldl (scan_step coords) st pts) = getDistance pt coords
               \<and> js_lt (fst (foldl (scan_step coords) st pts)) PInf)"
  using assms
proof (induction pts arbitrary: st)
  case Nil
  then show ?case by simp
next
  case (Cons p pts)
  have "(snd (scan_step coords st p) = None \<and> fst (scan_step coords st p) = PInf)
        \<or> (\<exists>pt. snd (scan_step coords st p) = Some pt
              \<and> fst (scan_step coords st p) = getDistance pt coords
              \<and> js_lt (fst (scan_step coords st p)) PInf)"
    using Cons.prems by (auto simp: scan_step_def Let_def dest: js_lt_PInf)
  from Cons.IH [OF this] show ?case by simp
qed

lemma nearest_cases:
  assumes "nearest decoded coords = (d, loc)"
  shows "(loc = None \<and> d = PInf) \<or> (\<exists>pt. loc = Some pt \<and> d = getDistance pt coords \<and> js_lt d PInf)"
  using scan_invariant [of "(PInf, None)" coords decoded] assms
  by (simp add: nearest_def)

lemma evalBranch_Some:
  assumes "evalBranch env thr decoded s dse b = Some r"
  shows "NearbyBranchResult.Name r = BranchRow.Name b
         \<and> nearest decoded (coordsOf env b)
           = (NearbyBranchResult.distanceToRoute_meters r, NearbyBranchResult.minDistanceLocation r)"
  using assms
  by (cases "nearest decoded (coordsOf env b)")
    (auto simp: evalBranch_def Let_def split: if_splits)

lemma nearby_of_unique_name:
  assumes "distinct (map BranchRow.Name branches)" and "b \<in> set branches"
    and "nearbyMapOf (findNearbyBranchesFromPolyline env thr decoded branches) (BranchRow.Name b)
         = Some r"
  shows "nearest decoded (coordsOf env b)
         = (NearbyBranchResult.distanceToRoute_meters r, NearbyBranchResult.minDistanceLocation r)"
proof -
  from nearbyMapOf_value [OF assms(3)]
  have r: "r \<in> set (findNearbyBranchesFromPolyline env thr decoded branches)"
    and n: "NearbyBranchResult.Name r = BranchRow.Name b"
    by simp_all
  from r obtain b' where b': "b' \<in> set branches"
    and e: "evalBranch env thr decoded (decoded ! 0)
              (getDistance (decoded ! 0) (decoded ! (length decoded - 1))) b' = Some r"
    by (auto simp: findNearbyBranchesFromPolyline_def Let_def set_map_filter split: if_splits)
  from evalBranch_Some [OF e] n have "BranchRow.Name b' = BranchRow.Name b"
    by simp
  with assms(1,2) b' have "b' = b"
    by (meson distinct_map inj_onD)
  with evalBranch_Some [OF e] show ?thesis
    by simp
qed

lemma candidate_origin:
  assumes "c \<in> set (candidatesFor env dthr rthr decoded branches carRows)"
  shows "\<exists>b\<in>set branches. \<exists>r.
           nearbyMapOf (findNearbyBranchesFromPolyline env dthr decoded branches) (BranchRow.Name b)
             = Some r
           \<and> \<lparr>Point.lat = Candidate.lat c, lng = Candidate.lng c\<rparr> = coordsOf env b
           \<and> Candidate.distanceToRoute_meters c = NearbyBranchResult.distanceToRoute_meters r
           \<and> Candidate.minDistanceLocation c = NearbyBranchResult.minDistanceLocation r"
proof -
  let ?nm = "nearbyMapOf (findNearbyBranchesFromPolyline env dthr decoded branches)"
  from assms obtain b where b: "b \<in> set branches"
    and c: "c \<in> set (joinRow env ?nm (highRangeEvMap env rthr carRows) b)"
    by (auto simp: candidatesFor_join)
  from c obtain r where r: "?nm (BranchRow.Name b) = Some r"
    by (cases "?nm (BranchRow.Name b)") (auto simp: joinRow_def)
  with c have "\<lparr>Point.lat = Candidate.lat c, lng = Candidate.lng c\<rparr> = coordsOf env b
           \<and> Candidate.distanceToRoute_meters c = NearbyBranchResult.distanceToRoute_meters r
           \<and> Candidate.minDistanceLocation c = NearbyBranchResult.minDistanceLocation r"
    by (auto simp: joinRow_def coordsOf_def)
  with b r show ?thesis by blast
qed

lemma candidate_nearest:
  assumes "distinct (map BranchRow.Name branches)"
    and "c \<in> set (candidatesFor env dthr rthr decoded branches carRows)"
  shows "nearest decoded \<lparr>Point.lat = Candidate.lat c, lng = Candidate.lng c\<rparr>
         = (Candidate.distanceToRoute_meters c, Candidate.minDistanceLocation c)"
proof -
  from candidate_origin [OF assms(2)] obtain b r where "b \<in> set branches"
    and "nearbyMapOf (findNearbyBranchesFromPolyline env dthr decoded branches) (BranchRow.Name b)
             = Some r"
    and "\<lparr>Point.lat = Candidate.lat c, lng = Candidate.lng c\<rparr> = coordsOf env b"
    and "Candidate.distanceToRoute_meters c = NearbyBranchResult.distanceToRoute_meters r"
    and "Candidate.minDistanceLocation c = NearbyBranchResult.minDistanceLocation r"
    by blast
  with nearby_of_unique_name [OF assms(1), of b env dthr decoded r] show ?thesis
    by simp
qed

lemma score_fields:
  assumes "score c = Inr s"
  shows "\<exists>loc. Candidate.minDistanceLocation c = Some loc
           \<and> distanceToMinLocation_meters s
             = getDistance \<lparr>Point.lat = Candidate.lat c, lng = Candidate.lng c\<rparr> loc
           \<and> distanceRatio s
             = js_div (Candidate.distanceToRoute_meters c) (distanceToMinLocation_meters s)
           \<and> Candidate.distanceToRoute_meters s = Candidate.distanceToRoute_meters c"
  using assms
  by (auto simp: score_def Let_def Candidate.defs BestBranchResult.defs split: option.splits)

lemma score_of_nearest:
  assumes "nearest decoded \<lparr>Point.lat = Candidate.lat c, lng = Candidate.lng c\<rparr>
           = (Candidate.distanceToRoute_meters c, Candidate.minDistanceLocation c)"
    and "score c = Inr s"
  shows "distanceToMinLocation_meters s = Candidate.distanceToRoute_meters s
         \<and> (distanceToMinLocation_meters s \<noteq> Fin 0 \<longrightarrow> distanceRatio s = Fin 1)
         \<and> distanceRatio s
           = js_div (Candidate.distanceToRoute_meters c) (Candidate.distanceToRoute_meters c)"
proof -
  from score_fields [OF assms(2)] obtain loc where loc: "Candidate.minDistanceLocation c = Some loc"
    and d: "distanceToMinLocation_meters s
             = getDistance \<lparr>Point.lat = Candidate.lat c, lng = Candidate.lng c\<rparr> loc"
    and r: "distanceRatio s
             = js_div (Candidate.distanceToRoute_meters c) (distanceToMinLocation_meters s)"
    and k: "Candidate.distanceToRoute_meters s = Candidate.distanceToRoute_meters c"
    by blast
  from nearest_cases [OF assms(1)] loc
  have e: "Candidate.distanceToRoute_meters c
           = getDistance loc \<lparr>Point.lat = Candidate.lat c, lng = Candidate.lng c\<rparr>"
    and f: "js_lt (Candidate.distanceToRoute_meters c) PInf"
    by auto
  from e d have same: "distanceToMinLocation_meters s = Candidate.distanceToRoute_meters c"
    by (simp add: getDistance_sym)
  from f obtain x where x: "Candidate.distanceToRoute_meters c = Fin x"
    using getDistance_Fin_or_NaN [of loc "\<lparr>Point.lat = Candidate.lat c, lng = Candidate.lng c\<rparr>"] e
    by auto
  show ?thesis
    using same k r x by simp
qed

lemma score_on_path_point:
  assumes "distinct (map BranchRow.Name branches)"
    and "c \<in> set (candidatesFor env dthr rthr decoded branches carRows)"
    and "score c = Inr s"
    and "distanceToMinLocation_meters s = Fin 0"
  shows "Candidate.distanceToRoute_meters c = Fin 0 \<and> distanceRatio s = NaN"
proof -
  from score_of_nearest [OF candidate_nearest [OF assms(1,2)] assms(3)]
  have same: "distanceToMinLocation_meters s = Candidate.distanceToRoute_meters s"
    and r: "distanceRatio s
            = js_div (Candidate.distanceToRoute_meters c) (Candidate.distanceToRoute_meters c)"
    by blast+
  from score_fields [OF assms(3)]
  have "Candidate.distanceToRoute_meters s = Candidate.distanceToRoute_meters c"
    by blast
  with same assms(4) have z: "Candidate.distanceToRoute_meters c = Fin 0"
    by simp
  with r show ?thesis
    by (simp add: inf_of_sign_def)
qed

lemma mapE_Inr:
  "mapE f xs = Inr ys \<Longrightarrow> list_all2 (\<lambda>x y. f x = Inr y) xs ys"
  by (induction xs arbitrary: ys) (auto split: sum.splits)

lemma mapE_sources:
  "mapE f xs = Inr ys \<Longrightarrow> \<forall>y\<in>set ys. \<exists>x\<in>set xs. f x = Inr y"
  by (induction xs arbitrary: ys) (auto split: sum.splits)

lemma selectBest_Some:
  assumes "selectBest free = Inr (Some w)"
  shows "\<exists>c cs s ss. free = c # cs \<and> score c = Inr s \<and> mapE score cs = Inr ss
           \<and> w = foldl better s ss"
  using assms
  by (cases free) (auto simp: selectBest_def split: sum.splits list.splits)

lemma selectBest_one:
  assumes "score c = Inr s"
  shows "selectBest [c] = Inr (Some s)"
  using assms by (simp add: selectBest_def)

lemma selectBest_two:
  assumes "score c1 = Inr s1" and "score c2 = Inr s2"
  shows "selectBest [c1, c2] = Inr (Some (better s1 s2))"
  using assms by (simp add: selectBest_def)

lemma foldl_better_first:
  assumes "\<forall>x\<in>set ss. \<exists>d. distanceRatio x = js_div d d" and "distanceRatio s = js_div e e"
  shows "foldl better s ss = s"
  using assms
proof (induction ss)
  case Nil
  show ?case by simp
next
  case (Cons x ss)
  then obtain d where "distanceRatio x = js_div d d" by auto
  with Cons.prems(2) have "better s x = s"
    by (simp add: better_def js_lt_div_self)
  with Cons show ?case by simp
qed

lemma foldl_better_min:
  assumes "distanceRatio s \<noteq> NaN"
  shows "distanceRatio (foldl better s ss) \<noteq> NaN
         \<and> (\<forall>x\<in>set (s # ss). \<not> js_lt (distanceRatio x) (distanceRatio (foldl better s ss)))"
  using assms
proof (induction ss arbitrary: s)
  case Nil
  then show ?case by (simp add: js_lt_irrefl)
next
  case (Cons x ss)
  let ?s1 = "better s x"
  let ?w = "foldl better ?s1 ss"
  have s1: "distanceRatio ?s1 \<noteq> NaN"
    using Cons.prems by (cases "distanceRatio x") (auto simp: better_def)
  from Cons.IH [OF s1] have w: "distanceRatio ?w \<noteq> NaN"
    and m: "\<forall>y\<in>set (?s1 # ss). \<not> js_lt (distanceRatio y) (distanceRatio ?w)"
    by simp_all
  from m have m1: "\<not> js_lt (distanceRatio ?s1) (distanceRatio ?w)" by simp
  have "\<not> js_lt (distanceRatio s) (distanceRatio ?w)"
  proof (cases "js_lt (distanceRatio x) (distanceRatio s)")
    case True
    with m1 show ?thesis
      using js_lt_trans [of "distanceRatio x" "distanceRatio s" "distanceRatio ?w"]
      by (auto simp: better_def)
  next
    case False
    with m1 show ?thesis by (simp add: better_def)
  qed
  moreover have "\<not> js_lt (distanceRatio x) (distanceRatio ?w)"
  proof (cases "js_lt (distanceRatio x) (distanceRatio s)")
    case True
    with m1 show ?thesis by (simp add: better_def)
  next
    case False
    show ?thesis
    proof
      assume lt: "js_lt (distanceRatio x) (distanceRatio ?w)"
      then have "distanceRatio x \<noteq> NaN" by (cases "distanceRatio x") simp_all
      with False Cons.prems have "js_le (distanceRatio s) (distanceRatio x)"
        by (simp add: js_le_def)
      from js_le_lt_trans [OF this lt] m1 False show False
        by (simp add: better_def)
    qed
  qed
  ultimately show ?case
    using w m by simp
qed

lemma selectBest_None_iff: "selectBest free = Inr None \<longleftrightarrow> free = []"
  by (cases free) (auto simp: selectBest_def split: sum.splits list.splits)

lemma foldl_better_first_min:
  assumes "\<forall>x\<in>set (s # ss). distanceRatio x \<noteq> NaN"
  shows "\<exists>pre post. s # ss = pre @ foldl better s ss # post
           \<and> (\<forall>x\<in>set pre. js_lt (distanceRatio (foldl better s ss)) (distanceRatio x))
           \<and> (\<forall>x\<in>set post. \<not> js_lt (distanceRatio x) (distanceRatio (foldl better s ss)))"
  using assms
proof (induction ss rule: rev_induct)
  case Nil
  show ?case by (rule exI [of _ "[]"], rule exI [of _ "[]"]) simp
next
  case (snoc x ss)
  let ?w = "foldl better s ss"
  from snoc obtain pre post where split: "s # ss = pre @ ?w # post"
    and pre: "\<forall>y\<in>set pre. js_lt (distanceRatio ?w) (distanceRatio y)"
    and post: "\<forall>y\<in>set post. \<not> js_lt (distanceRatio y) (distanceRatio ?w)"
    by auto
  have nn: "distanceRatio y \<noteq> NaN" if "y \<in> set (s # ss)" for y
    using snoc.prems that by auto
  have w: "?w \<in> set (s # ss)"
    using split by (metis in_set_conv_decomp)
  show ?case
  proof (cases "js_lt (distanceRatio x) (distanceRatio ?w)")
    case True
    then have b: "foldl better s (ss @ [x]) = x"
      by (simp add: better_def)
    have "\<forall>y\<in>set (pre @ ?w # post). js_lt (distanceRatio x) (distanceRatio y)"
    proof
      fix y
      assume y: "y \<in> set (pre @ ?w # post)"
      then consider "y \<in> set pre" | "y = ?w" | "y \<in> set post" by auto
      then show "js_lt (distanceRatio x) (distanceRatio y)"
      proof cases
        case 1
        with pre True show ?thesis using js_lt_trans by blast
      next
        case 2
        with True show ?thesis by simp
      next
        case 3
        with post have "\<not> js_lt (distanceRatio y) (distanceRatio ?w)" by simp
        moreover have "distanceRatio y \<noteq> NaN" "distanceRatio ?w \<noteq> NaN"
          using nn [of y] nn [OF w] y split by (auto simp del: foldl_Cons)
        ultimately have "js_le (distanceRatio ?w) (distanceRatio y)"
          by (simp add: js_le_def)
        with True show ?thesis by (rule js_lt_le_trans)
      qed
    qed
    then show ?thesis
      unfolding b using split
      by (intro exI [of _ "pre @ ?w # post"] exI [of _ "[]"]) simp
  next
    case False
    then have b: "foldl better s (ss @ [x]) = ?w"
      by (simp add: better_def)
    show ?thesis
      unfolding b using split pre post False
      by (intro exI [of _ pre] exI [of _ "post @ [x]"]) auto
  qed
qed

lemma selectBest_first_minimum:
  assumes "selectBest free = Inr (Some w)" and "mapE score free = Inr scored"
    and "\<forall>x\<in>set scored. distanceRatio x \<noteq> NaN"
  shows "\<exists>pre post. scored = pre @ w # post
           \<and> (\<forall>x\<in>set pre. js_lt (distanceRatio w) (distanceRatio x))
           \<and> (\<forall>x\<in>set post. \<not> js_lt (distanceRatio x) (distanceRatio w))"
proof -
  from selectBest_Some [OF assms(1)] obtain c cs s ss where "free = c # cs"
    and "score c = Inr s" and "mapE score cs = Inr ss" and w: "w = foldl better s ss"
    by blast
  with assms(2) have "scored = s # ss" by simp
  with foldl_better_first_min [of s ss] assms(3) w show ?thesis
    by simp
qed

lemma free_unbooked:
  "freeCandidates (bookedMap env []) d cs = cs"
  by (simp add: freeCandidates_def bookedMap_def)

lemma free_single_removed:
  "c \<notin> set (freeCandidates b d [c]) \<Longrightarrow> freeCandidates b d [c] = []"
  by (simp add: freeCandidates_def split: if_splits)


section \<open>The sample data evaluated\<close>

lemma sample_like_envs:
  "sample_like sample_env" "sample_like honolulu_env" "sample_like new_york_env"
  by (simp_all add: sample_like_def sample_env_def honolulu_env_def new_york_env_def)

lemma arc_simps:
  "arc 0 = 0" "(arc x < arc y) = (x < y)" "(arc x = arc y) = (x = y)"
  "(arc x = 0) = (x = 0)" "(0 < arc x) = (0 < x)" "(arc x < 0) = (x < 0)"
  "arc x * (6 / 10) = arc (x * (6 / 10))"
  by (simp_all add: arc_def zero_less_mult_iff mult_less_0_iff)

lemma arc_short: "arc (1 / 200) < 1000"
  using pi_less_4 by (simp add: arc_def)

lemma arc_ratio: "y \<noteq> 0 \<Longrightarrow> arc x / arc y = x / y"
  by (simp add: arc_def)

lemma equator_distance:
  assumes "\<bar>b - a\<bar> \<le> 180"
  shows "getDistance (eq_pt a) (eq_pt b) = Fin (arc \<bar>b - a\<bar>)"
proof (cases "a \<le> b")
  case True
  with assms show ?thesis
    using getDistance_equator [of a b] by (simp add: eq_pt_def arc_def)
next
  case False
  with assms show ?thesis
    using getDistance_equator [of b a] getDistance_sym [of "eq_pt a" "eq_pt b"]
    by (simp add: eq_pt_def arc_def)
qed

lemma sample_parseFloat_simps:
  assumes "sample_like env"
  shows "parseFloat env ''0'' = Fin 0" "parseFloat env ''0.5'' = Fin (1 / 2)"
    "parseFloat env ''0.505'' = Fin (101 / 200)" "parseFloat env ''1'' = Fin 1"
    "parseFloat env ''100'' = Fin 100" "parseFloat env ''150'' = Fin 150"
  using assms by (simp_all add: sample_like_def sample_parseFloat_def)

lemma sample_cells:
  assumes "sample_like env"
  shows "parseStringArray env (Some cell_E1) = [''E1'']"
    "parseStringArray env (Some cell_E2) = [''E2'']"
    "parseStringArray env (Some cell_E3) = [''E3'']"
    "parseStringArray env (Some cell_E1_E2) = [''E1'', ''E2'']"
    "parseStringArray env (Some cell_E1_E3) = [''E1'', ''E3'']"
    "parseStringArray env (Some []) = []"
  using assms
  by (simp_all add: sample_like_def parseStringArray_def sample_JSON_parse_def replace_quotes_def
      cell_E1_def cell_E2_def cell_E3_def cell_E1_E2_def cell_E1_E3_def squoted_def dquoted_def)

lemma trim_samples:
  "trim ''E1'' = ''E1''" "trim ''E2'' = ''E2''" "trim ''E3'' = ''E3''" "trim ''G1'' = ''G1''"
  "trim [] = []" "trim ''  '' = []" "trim ''soon'' = ''soon''"
  "trim ''2024-06-01T08:00:00Z'' = ''2024-06-01T08:00:00Z''"
  by (simp_all add: trim_def is_space_def)

lemma sample_coords:
  assumes "sample_like env"
  shows "coordsOf env (branch_at n ''0'' cs) = eq_pt 0"
    "coordsOf env (branch_at n ''0.5'' cs) = eq_pt (1 / 2)"
    "coordsOf env (branch_at n ''0.505'' cs) = eq_pt (101 / 200)"
    "coordsOf env (branch_at n ''1'' cs) = eq_pt 1"
  using sample_parseFloat_simps [OF assms]
  by (simp_all add: coordsOf_def branch_at_def eq_pt_def)

lemma start_distances:
  "getDistance (eq_pt 0) (eq_pt 0) = Fin (arc 0)"
  "getDistance (eq_pt 0) (eq_pt (1 / 2)) = Fin (arc (1 / 2))"
  "getDistance (eq_pt 0) (eq_pt (101 / 200)) = Fin (arc (101 / 200))"
  "getDistance (eq_pt 0) (eq_pt 1) = Fin (arc 1)"
  by (simp_all add: equator_distance)

lemma forward_test:
  "js_gt (Fin (arc x)) (js_mul (Fin (arc 1)) (Fin (6 / 10))) = (3 / 5 < x)"
  by (simp add: js_gt_def arc_def mult.commute)

lemma findNearby_sample_path:
  "findNearbyBranchesFromPolyline env thr sample_path bs
   = List.map_filter (evalBranch env thr sample_path (eq_pt 0) (Fin (arc 1))) bs"
  by (simp add: findNearbyBranchesFromPolyline_def sample_path_def equator_distance Let_def)

lemma nearest_samples:
  "nearest sample_path (eq_pt 0) = (Fin 0, Some (eq_pt 0))"
  "nearest sample_path (eq_pt (1 / 2)) = (Fin 0, Some (eq_pt (1 / 2)))"
  "nearest sample_path (eq_pt (101 / 200)) = (Fin (arc (1 / 200)), Some (eq_pt (1 / 2)))"
  "nearest sample_path (eq_pt 1) = (Fin 0, Some (eq_pt 1))"
  by (simp_all add: nearest_def sample_path_def scan_step_def equator_distance arc_simps Let_def)

lemma evalBranch_samples:
  assumes "sample_like env"
  shows "evalBranch env (Fin 1000) sample_path (eq_pt 0) (Fin (arc 1)) (branch_at n ''0'' cs)
         = Some \<lparr>NearbyBranchResult.Name = n, distanceToRoute_meters = Fin 0,
                 minDistanceLocation = Some (eq_pt 0)\<rparr>"
    "evalBranch env (Fin 1000) sample_path (eq_pt 0) (Fin (arc 1)) (branch_at n ''0.5'' cs)
         = Some \<lparr>NearbyBranchResult.Name = n, distanceToRoute_meters = Fin 0,
                 minDistanceLocation = Some (eq_pt (1 / 2))\<rparr>"
    "evalBranch env (Fin 1000) sample_path (eq_pt 0) (Fin (arc 1)) (branch_at n ''0.505'' cs)
         = Some \<lparr>NearbyBranchResult.Name = n, distanceToRoute_meters = Fin (arc (1 / 200)),
                 minDistanceLocation = Some (eq_pt (1 / 2))\<rparr>"
    "evalBranch env thr sample_path (eq_pt 0) (Fin (arc 1)) (branch_at n ''1'' cs) = None"
proof -
  have n: "BranchRow.Name (branch_at n l cs) = n" for l
    by (simp add: branch_at_def)
  have nan: "\<not> isNaN (Point.lat (eq_pt x))" "\<not> isNaN (Point.lng (eq_pt x))" for x
    by (simp_all add: isNaN_def eq_pt_def)
  note unfold = evalBranch_def Let_def sample_coords [OF assms] start_distances forward_test
    nearest_samples
  show "evalBranch env (Fin 1000) sample_path (eq_pt 0) (Fin (arc 1)) (branch_at n ''0'' cs)
         = Some \<lparr>NearbyBranchResult.Name = n, distanceToRoute_meters = Fin 0,
                 minDistanceLocation = Some (eq_pt 0)\<rparr>"
    by (simp only: unfold) (simp add: nan n js_gt_def)
  show "evalBranch env (Fin 1000) sample_path (eq_pt 0) (Fin (arc 1)) (branch_at n ''0.5'' cs)
         = Some \<lparr>NearbyBranchResult.Name = n, distanceToRoute_meters = Fin 0,
                 minDistanceLocation = Some (eq_pt (1 / 2))\<rparr>"
    by (simp only: unfold) (simp add: nan n js_gt_def)
  show "evalBranch env (Fin 1000) sample_path (eq_pt 0) (Fin (arc 1)) (branch_at n ''0.505'' cs)
         = Some \<lparr>NearbyBranchResult.Name = n, distanceToRoute_meters = Fin (arc (1 / 200)),
                 minDistanceLocation = Some (eq_pt (1 / 2))\<rparr>"
    using arc_short by (simp only: unfold) (simp add: nan n js_gt_def)
  show "evalBranch env thr sample_path (eq_pt 0) (Fin (arc 1)) (branch_at n ''1'' cs) = None"
    by (simp only: unfold) (simp add: nan)
qed

lemma sample_eligible:
  assumes "sample_like env"
  shows "eligible env (Fin 100) car_E1" "eligible env (Fin 100) car_E2"
    "\<not> eligible env (Fin 100) car_E3" "\<not> eligible env (Fin 100) car_G1"
  using sample_parseFloat_simps [OF assms]
  by (simp_all add: eligible_def js_gt_def car_E1_def car_E2_def car_E3_def car_G1_def)

lemma sample_ids:
  "trim (CarRow.id car_E1) = ''E1''" "trim (CarRow.id car_E2) = ''E2''"
  "trim (CarRow.id car_E3) = ''E3''" "trim (CarRow.id car_G1) = ''G1''"
  by (simp_all add: car_E1_def car_E2_def car_E3_def car_G1_def trim_samples)

lemma sample_index:
  assumes "sample_like env"
  shows "highRangeEvMap env (Fin 100) [car_E1, car_E3, car_E2, car_G1]
         = [''E1'' \<mapsto> CarRow.extend car_E1 (CarWithTrips.fields []),
            ''E2'' \<mapsto> CarRow.extend car_E2 (CarWithTrips.fields [])]"
    "highRangeEvMap env (Fin 100) [car_E1, car_E2]
         = [''E1'' \<mapsto> CarRow.extend car_E1 (CarWithTrips.fields []),
            ''E2'' \<mapsto> CarRow.extend car_E2 (CarWithTrips.fields [])]"
    "highRangeEvMap env (Fin 100) [car_E1]
         = [''E1'' \<mapsto> CarRow.extend car_E1 (CarWithTrips.fields [])]"
proof -
  have t: "parseStringArray env (Some (trips_ids car_E1)) = []"
    "parseStringArray env (Some (trips_ids car_E2)) = []"
    by (simp_all add: car_E1_def car_E2_def parseStringArray_def)
  show "highRangeEvMap env (Fin 100) [car_E1, car_E3, car_E2, car_G1]
         = [''E1'' \<mapsto> CarRow.extend car_E1 (CarWithTrips.fields []),
            ''E2'' \<mapsto> CarRow.extend car_E2 (CarWithTrips.fields [])]"
    "highRangeEvMap env (Fin 100) [car_E1, car_E2]
         = [''E1'' \<mapsto> CarRow.extend car_E1 (CarWithTrips.fields []),
            ''E2'' \<mapsto> CarRow.extend car_E2 (CarWithTrips.fields [])]"
    "highRangeEvMap env (Fin 100) [car_E1]
         = [''E1'' \<mapsto> CarRow.extend car_E1 (CarWithTrips.fields [])]"
    by (simp_all add: highRangeEvMap_def sample_eligible [OF assms] sample_ids t)
qed

lemma sample_trips_of:
  "trips (CarRow.extend car_E1 (CarWithTrips.fields [])) = []"
  "trips (CarRow.extend car_E2 (CarWithTrips.fields [])) = []"
  by (simp_all add: CarRow.defs CarWithTrips.defs car_E1_def car_E2_def)

lemma branch_at_fields:
  "BranchRow.Name (branch_at n l cs) = n" "Lat (branch_at n l cs) = ''0''"
  "Lng (branch_at n l cs) = l" "cars (branch_at n l cs) = Some cs"
  by (simp_all add: branch_at_def)

lemmas sample_eval =
  candidatesFor_join findNearby_sample_path nearbyMapOf_def joinRow_def branch_at_fields
  sample_trips_of trim_samples startsWithE_def cand_at_def

lemmas sample_eval_env =
  evalBranch_samples sample_cells sample_index sample_parseFloat_simps

lemma candidates_single:
  assumes "sample_like env"
  shows "candidatesFor env (Fin 1000) (Fin 100) sample_path
           [branch_at ''B'' ''0.505'' cell_E1] [car_E1]
         = [cand_at ''B'' (101 / 200) (Fin (arc (1 / 200))) (eq_pt (1 / 2)) ''E1'']"
  by (simp add: sample_eval_env [OF assms] sample_eval)

lemma candidates_single_on_path:
  assumes "sample_like env"
  shows "candidatesFor env (Fin 1000) (Fin 100) sample_path
           [branch_at ''A'' ''0.5'' cell_E1] [car_E1]
         = [cand_at ''A'' (1 / 2) (Fin 0) (eq_pt (1 / 2)) ''E1'']"
  by (simp add: sample_eval_env [OF assms] sample_eval)

lemma candidates_on_path_first:
  assumes "sample_like env"
  shows "candidatesFor env (Fin 1000) (Fin 100) sample_path
           [branch_at ''A'' ''0.5'' cell_E1, branch_at ''B'' ''0.505'' cell_E2] [car_E1, car_E2]
         = [cand_at ''A'' (1 / 2) (Fin 0) (eq_pt (1 / 2)) ''E1'',
            cand_at ''B'' (101 / 200) (Fin (arc (1 / 200))) (eq_pt (1 / 2)) ''E2'']"
  by (simp add: sample_eval_env [OF assms] sample_eval)

lemma candidates_same_name:
  assumes "sample_like env"
  shows "candidatesFor env (Fin 1000) (Fin 100) sample_path
           [branch_at ''B'' ''0.505'' cell_E1, branch_at ''B'' ''1'' cell_E2] [car_E1, car_E2]
         = [cand_at ''B'' (101 / 200) (Fin (arc (1 / 200))) (eq_pt (1 / 2)) ''E1'',
            cand_at ''B'' 1 (Fin (arc (1 / 200))) (eq_pt (1 / 2)) ''E2'']"
  by (simp add: sample_eval_env [OF assms] sample_eval)

lemma candidates_one_excluded:
  assumes "sample_like env"
  shows "candidatesFor env (Fin 1000) (Fin 100) sample_path
           [branch_at ''A'' ''0.5'' cell_E1_E3] [car_E1, car_E3, car_E2, car_G1]
         = [cand_at ''A'' (1 / 2) (Fin 0) (eq_pt (1 / 2)) ''E1'']"
  by (simp add: sample_eval_env [OF assms] sample_eval)

lemma candidates_two_evs:
  assumes "sample_like env"
  shows "candidatesFor env (Fin 1000) (Fin 100) sample_path
           [branch_at ''A'' ''0.5'' cell_E1_E2, branch_at ''C'' ''1'' cell_E1_E2,
            branch_at ''D'' ''0'' cell_E3]
           [car_E1, car_E3, car_E2, car_G1]
         = [cand_at ''A'' (1 / 2) (Fin 0) (eq_pt (1 / 2)) ''E1'',
            cand_at ''A'' (1 / 2) (Fin 0) (eq_pt (1 / 2)) ''E2'']"
  by (simp add: sample_eval_env [OF assms] sample_eval)

lemma score_cand_at:
  "score (cand_at n x dtr loc ev)
   = Inr (scored_at n x dtr loc ev (getDistance (eq_pt x) loc)
            (js_div dtr (getDistance (eq_pt x) loc)))"
  by (simp add: score_def cand_at_def scored_at_def eq_pt_def Candidate.defs BestBranchResult.defs
      Let_def)

lemma scored_at_fields:
  "distanceRatio (scored_at n x dtr loc ev d r) = r"
  "distanceToMinLocation_meters (scored_at n x dtr loc ev d r) = d"
  "Candidate.distanceToRoute_meters (scored_at n x dtr loc ev d r) = dtr"
  by (simp_all add: scored_at_def)

lemma sample_scores:
  "score (cand_at n (1 / 2) (Fin 0) (eq_pt (1 / 2)) ev)
   = Inr (scored_at n (1 / 2) (Fin 0) (eq_pt (1 / 2)) ev (Fin 0) NaN)"
  "score (cand_at n (101 / 200) (Fin (arc (1 / 200))) (eq_pt (1 / 2)) ev)
   = Inr (scored_at n (101 / 200) (Fin (arc (1 / 200))) (eq_pt (1 / 2)) ev
            (Fin (arc (1 / 200))) (Fin 1))"
  "score (cand_at n 1 (Fin (arc (1 / 200))) (eq_pt (1 / 2)) ev)
   = Inr (scored_at n 1 (Fin (arc (1 / 200))) (eq_pt (1 / 2)) ev
            (Fin (arc (1 / 2))) (Fin (1 / 100)))"
  by (simp_all add: score_cand_at equator_distance arc_simps arc_ratio inf_of_sign_def)

lemma sample_dates:
  assumes "sample_like env"
  shows "Date_parse env ''2024-06-01T08:00:00Z'' = Some 1717228800000"
    "Date_parse env ''2024-06-01'' = Some 1717200000000"
    "Date_parse env ''soon'' = None"
  using assms by (simp_all add: sample_like_def sample_Date_parse_def)

lemma sample_toLocalDate:
  "toLocalDate sample_env (DateStr ''2024-06-01T08:00:00Z'') = ''2024-06-01''"
  "toLocalDate sample_env (DateStr ''2024-06-01'') = ''2024-06-01''"
  "toLocalDate honolulu_env (DateStr ''2024-06-01T08:00:00Z'') = ''2024-05-31''"
  "toLocalDate honolulu_env (DateObj (Some 1717279200000)) = ''2024-06-01''"
  "toLocalDate new_york_env (DateStr ''2024-06-01T08:00:00Z'') = ''2024-06-01''"
  "toLocalDate new_york_env (DateStr ''2024-06-01'') = ''2024-05-31''"
  by code_simp+

lemma sample_timeStr:
  "timeStrOf trip_E1 = Some ''2024-06-01T08:00:00Z''"
  "timeStrOf trip_arrival = Some ''2024-06-01T08:00:00Z''"
  "timeStrOf trip_neither = None"
  "timeStrOf trip_unparseable = Some ''soon''"
  "timeStrOf trip_blank_id = Some ''2024-06-01T08:00:00Z''"
  by (simp_all add: timeStrOf_def trip_E1_def trip_arrival_def trip_neither_def
      trip_unparseable_def trip_blank_id_def trim_samples)

lemma sample_trip_ids:
  "trim (car_id trip_E1) = ''E1''" "trim (car_id trip_arrival) = ''E1''"
  "trim (car_id trip_neither) = ''E1''" "trim (car_id trip_unparseable) = ''E1''"
  "trim (car_id trip_blank_id) = []"
  by (simp_all add: trip_E1_def trip_arrival_def trip_neither_def trip_unparseable_def
      trip_blank_id_def trim_samples)

lemma sample_booking:
  assumes "sample_like env"
  shows "bookedMap env [trip_E1] = [''E1'' \<mapsto> [toLocalDate env (DateStr ''2024-06-01T08:00:00Z'')]]"
  by (simp add: bookedMap_def bookTrip_def tripEntry_cases sample_trip_ids sample_timeStr
      sample_dates [OF assms])


section \<open>Selection of the best candidate\<close>

text \<open>
  C1: on a branch that lies on a path point (distance 0, score 0/0 = NaN) listed before a
  branch 556 m off the route (score 1), the function returns the first: no later score
  compares less than NaN.
\<close>

theorem nan_score_first_wins:
  "getBestBranchWithAvailableEV sample_env (Fin 1000) (Fin 100) (DateStr ''2024-06-01'')
     sample_path [branch_at ''A'' ''0.5'' cell_E1, branch_at ''B'' ''0.505'' cell_E2]
     [car_E1, car_E2] []
   = Inr (Some (scored_at ''A'' (1 / 2) (Fin 0) (eq_pt (1 / 2)) ''E1'' (Fin 0) NaN))
   \<and> mapE score
       (freeCandidatesFor sample_env (Fin 1000) (Fin 100) (DateStr ''2024-06-01'')
          sample_path [branch_at ''A'' ''0.5'' cell_E1, branch_at ''B'' ''0.505'' cell_E2]
          [car_E1, car_E2] [])
     = Inr [scored_at ''A'' (1 / 2) (Fin 0) (eq_pt (1 / 2)) ''E1'' (Fin 0) NaN,
            scored_at ''B'' (101 / 200) (Fin (arc (1 / 200))) (eq_pt (1 / 2)) ''E2''
              (Fin (arc (1 / 200))) (Fin 1)]"
  by (simp add: getBestBranchWithAvailableEV_def freeCandidatesFor_def free_unbooked
      candidates_on_path_first [OF sample_like_envs(1)] sample_scores selectBest_two better_def
      scored_at_fields)

text \<open>
  C2, as amended: when the names of the branches are pairwise distinct, every candidate that
  is scored has a distance to its nearest path point equal to its distance to the route,
  and ratio 1 unless that distance is 0; and the candidate returned is the first free
  candidate.
\<close>

theorem unique_names_ratio:
  assumes "distinct (map BranchRow.Name branches)"
  shows "(\<forall>c\<in>set (candidatesFor env dthr rthr decoded branches carRows). \<forall>s.
            score c = Inr s \<longrightarrow>
              distanceToMinLocation_meters s = Candidate.distanceToRoute_meters s
              \<and> (distanceToMinLocation_meters s \<noteq> Fin 0 \<longrightarrow> distanceRatio s = Fin 1))
         \<and> (\<forall>w. getBestBranchWithAvailableEV env dthr rthr TIME decoded branches carRows tripRows
                  = Inr (Some w) \<longrightarrow>
                score (hd (freeCandidatesFor env dthr rthr TIME decoded branches carRows tripRows))
                = Inr w)"
proof (rule conjI; intro ballI allI impI)
  fix c s
  assume "c \<in> set (candidatesFor env dthr rthr decoded branches carRows)" and "score c = Inr s"
  with score_of_nearest [OF candidate_nearest [OF assms]]
  show "distanceToMinLocation_meters s = Candidate.distanceToRoute_meters s
        \<and> (distanceToMinLocation_meters s \<noteq> Fin 0 \<longrightarrow> distanceRatio s = Fin 1)"
    by blast
next
  fix w
  let ?free = "freeCandidatesFor env dthr rthr TIME decoded branches carRows tripRows"
  assume "getBestBranchWithAvailableEV env dthr rthr TIME decoded branches carRows tripRows
          = Inr (Some w)"
  then have "selectBest ?free = Inr (Some w)"
    by (simp add: getBestBranchWithAvailableEV_def)
  from selectBest_Some [OF this] obtain c cs s ss where f: "?free = c # cs"
    and s: "score c = Inr s" and ss: "mapE score cs = Inr ss" and w: "w = foldl better s ss"
    by blast
  have sub: "set ?free \<subseteq> set (candidatesFor env dthr rthr decoded branches carRows)"
    by (auto simp: freeCandidatesFor_def freeCandidates_def)
  have ratio: "\<exists>d. distanceRatio y = js_div d d" if "x \<in> set ?free" and "score x = Inr y" for x y
    using score_of_nearest [OF candidate_nearest [OF assms] that(2)] that(1) sub by blast
  have "\<exists>d. distanceRatio s = js_div d d"
    using ratio [of c s] f s by simp
  moreover have "\<forall>y\<in>set ss. \<exists>d. distanceRatio y = js_div d d"
  proof
    fix y
    assume "y \<in> set ss"
    with mapE_sources [OF ss] obtain x where "x \<in> set cs" and "score x = Inr y"
      by blast
    with ratio [of x y] f show "\<exists>d. distanceRatio y = js_div d d"
      by simp
  qed
  ultimately have "foldl better s ss = s"
    using foldl_better_first by blast
  with f s w show "score (hd ?free) = Inr w"
    by simp
qed

theorem unique_names_ratio_witness:
  "distinct (map BranchRow.Name [branch_at ''A'' ''0.5'' cell_E1, branch_at ''B'' ''0.505'' cell_E2])
   \<and> score (cand_at ''B'' (101 / 200) (Fin (arc (1 / 200))) (eq_pt (1 / 2)) ''E2'')
       = Inr (scored_at ''B'' (101 / 200) (Fin (arc (1 / 200))) (eq_pt (1 / 2)) ''E2''
                (Fin (arc (1 / 200))) (Fin 1))
   \<and> distanceToMinLocation_meters
         (scored_at ''B'' (101 / 200) (Fin (arc (1 / 200))) (eq_pt (1 / 2)) ''E2''
            (Fin (arc (1 / 200))) (Fin 1))
       = Candidate.distanceToRoute_meters
           (scored_at ''B'' (101 / 200) (Fin (arc (1 / 200))) (eq_pt (1 / 2)) ''E2''
              (Fin (arc (1 / 200))) (Fin 1))
   \<and> score (hd (freeCandidatesFor sample_env (Fin 1000) (Fin 100) (DateStr ''2024-06-01'')
                   sample_path [branch_at ''A'' ''0.5'' cell_E1, branch_at ''B'' ''0.505'' cell_E2]
                   [car_E1, car_E2] []))
       = Inr (scored_at ''A'' (1 / 2) (Fin 0) (eq_pt (1 / 2)) ''E1'' (Fin 0) NaN)"
proof -
  let ?bs = "[branch_at ''A'' ''0.5'' cell_E1, branch_at ''B'' ''0.505'' cell_E2]"
  have d: "distinct (map BranchRow.Name ?bs)"
    by (simp add: branch_at_fields)
  have g: "getBestBranchWithAvailableEV sample_env (Fin 1000) (Fin 100) (DateStr ''2024-06-01'')
     sample_path ?bs [car_E1, car_E2] []
   = Inr (Some (scored_at ''A'' (1 / 2) (Fin 0) (eq_pt (1 / 2)) ''E1'' (Fin 0) NaN))"
    by (simp add: getBestBranchWithAvailableEV_def freeCandidatesFor_def free_unbooked
      candidates_on_path_first [OF sample_like_envs(1)] sample_scores selectBest_two better_def
      scored_at_fields)
  from unique_names_ratio [OF d, of sample_env "Fin 1000" "Fin 100" sample_path "[car_E1, car_E2]"
      "DateStr ''2024-06-01''" "[]"] g d
  show ?thesis
    by (simp add: candidates_on_path_first [OF sample_like_envs(1)] sample_scores scored_at_fields)
qed

text \<open>
  Two rows with the name B: one 556 m off the route, one at the end of the route, which
  the proximity filter rejects.  The second is a candidate all the same, with the
  distance and nearest point of the first; it is 55.6 km from that point, has ratio 1/100
  and is returned, though it is the second free candidate.
\<close>

theorem same_name_counterexample:
  "freeCandidatesFor sample_env (Fin 1000) (Fin 100) (DateStr ''2024-06-01'') sample_path
     [branch_at ''B'' ''0.505'' cell_E1, branch_at ''B'' ''1'' cell_E2] [car_E1, car_E2] []
   = [cand_at ''B'' (101 / 200) (Fin (arc (1 / 200))) (eq_pt (1 / 2)) ''E1'',
      cand_at ''B'' 1 (Fin (arc (1 / 200))) (eq_pt (1 / 2)) ''E2'']
   \<and> getBestBranchWithAvailableEV sample_env (Fin 1000) (Fin 100) (DateStr ''2024-06-01'')
       sample_path [branch_at ''B'' ''0.505'' cell_E1, branch_at ''B'' ''1'' cell_E2]
       [car_E1, car_E2] []
     = Inr (Some (scored_at ''B'' 1 (Fin (arc (1 / 200))) (eq_pt (1 / 2)) ''E2''
                    (Fin (arc (1 / 2))) (Fin (1 / 100))))
   \<and> Fin (arc (1 / 2)) \<noteq> Fin (arc (1 / 200))"
  by (simp add: getBestBranchWithAvailableEV_def freeCandidatesFor_def free_unbooked
      candidates_same_name [OF sample_like_envs(1)] sample_scores selectBest_two better_def
      scored_at_fields arc_simps)

text \<open>
  C3: a branch on a path point is a candidate whose distance to its nearest path point is
  exactly 0.  Its distance to the route is 0 as well, so its score is 0/0, which is NaN and
  not infinite.  Alone, it is returned with the score NaN; listed before a branch 556 m
  off the route, whose score is the finite 1, it is returned all the same.
\<close>

theorem zero_distance_score_is_nan:
  "candidatesFor sample_env (Fin 1000) (Fin 100) sample_path
     [branch_at ''A'' ''0.5'' cell_E1] [car_E1]
     = [cand_at ''A'' (1 / 2) (Fin 0) (eq_pt (1 / 2)) ''E1'']
   \<and> score (cand_at ''A'' (1 / 2) (Fin 0) (eq_pt (1 / 2)) ''E1'')
     = Inr (scored_at ''A'' (1 / 2) (Fin 0) (eq_pt (1 / 2)) ''E1'' (Fin 0) NaN)
   \<and> distanceToMinLocation_meters
       (scored_at ''A'' (1 / 2) (Fin 0) (eq_pt (1 / 2)) ''E1'' (Fin 0) NaN) = Fin 0
   \<and> distanceRatio (scored_at ''A'' (1 / 2) (Fin 0) (eq_pt (1 / 2)) ''E1'' (Fin 0) NaN) = NaN
   \<and> distanceRatio (scored_at ''A'' (1 / 2) (Fin 0) (eq_pt (1 / 2)) ''E1'' (Fin 0) NaN) \<noteq> PInf
   \<and> getBestBranchWithAvailableEV sample_env (Fin 1000) (Fin 100) (DateStr ''2024-06-01'')
       sample_path [branch_at ''A'' ''0.5'' cell_E1] [car_E1] []
     = Inr (Some (scored_at ''A'' (1 / 2) (Fin 0) (eq_pt (1 / 2)) ''E1'' (Fin 0) NaN))
   \<and> candidatesFor sample_env (Fin 1000) (Fin 100) sample_path
       [branch_at ''A'' ''0.5'' cell_E1, branch_at ''B'' ''0.505'' cell_E2] [car_E1, car_E2]
     = [cand_at ''A'' (1 / 2) (Fin 0) (eq_pt (1 / 2)) ''E1'',
        cand_at ''B'' (101 / 200) (Fin (arc (1 / 200))) (eq_pt (1 / 2)) ''E2'']
   \<and> score (cand_at ''B'' (101 / 200) (Fin (arc (1 / 200))) (eq_pt (1 / 2)) ''E2'')
     = Inr (scored_at ''B'' (101 / 200) (Fin (arc (1 / 200))) (eq_pt (1 / 2)) ''E2''
              (Fin (arc (1 / 200))) (Fin 1))
   \<and> isFinite (distanceRatio
        (scored_at ''B'' (101 / 200) (Fin (arc (1 / 200))) (eq_pt (1 / 2)) ''E2''
           (Fin (arc (1 / 200))) (Fin 1)))
   \<and> selectBest [cand_at ''A'' (1 / 2) (Fin 0) (eq_pt (1 / 2)) ''E1'',
                  cand_at ''B'' (101 / 200) (Fin (arc (1 / 200))) (eq_pt (1 / 2)) ''E2'']
     = Inr (Some (scored_at ''A'' (1 / 2) (Fin 0) (eq_pt (1 / 2)) ''E1'' (Fin 0) NaN))"
proof -
  have single: "getBestBranchWithAvailableEV sample_env (Fin 1000) (Fin 100)
       (DateStr ''2024-06-01'') sample_path [branch_at ''A'' ''0.5'' cell_E1] [car_E1] []
     = Inr (Some (scored_at ''A'' (1 / 2) (Fin 0) (eq_pt (1 / 2)) ''E1'' (Fin 0) NaN))"
    by (simp add: getBestBranchWithAvailableEV_def freeCandidatesFor_def free_unbooked
        candidates_single_on_path [OF sample_like_envs(1)] sample_scores selectBest_one)
  have pair: "selectBest [cand_at ''A'' (1 / 2) (Fin 0) (eq_pt (1 / 2)) ''E1'',
                  cand_at ''B'' (101 / 200) (Fin (arc (1 / 200))) (eq_pt (1 / 2)) ''E2'']
     = Inr (Some (scored_at ''A'' (1 / 2) (Fin 0) (eq_pt (1 / 2)) ''E1'' (Fin 0) NaN))"
    by (simp add: selectBest_two sample_scores better_def scored_at_fields)
  from single pair show ?thesis
    by (simp add: candidates_single_on_path [OF sample_like_envs(1)]
        candidates_on_path_first [OF sample_like_envs(1)] sample_scores scored_at_fields
        isFinite_def)
qed


section \<open>The route-proximity filter: bounds and thresholds\<close>

text \<open>
  C4: a branch whose distance from the first path point exceeds 0.6 times the distance
  between the first and the last path point contributes no result, whatever the
  threshold and whatever its distance to the route: the results are those of the other
  branches, and alone it yields none.
\<close>

theorem forward_progress_bound:
  assumes "js_gt (getDistance (decoded ! 0) (coordsOf env c))
             (js_mul (getDistance (decoded ! 0) (decoded ! (length decoded - 1))) (Fin (6 / 10)))"
  shows "findNearbyBranchesFromPolyline env thr decoded (bs1 @ c # bs2)
           = findNearbyBranchesFromPolyline env thr decoded (bs1 @ bs2)
         \<and> findNearbyBranchesFromPolyline env thr decoded [c] = []"
  using assms
  by (simp add: findNearbyBranchesFromPolyline_def Let_def map_filter_append evalBranch_beyond)

text \<open>
  The branch at the last point of the path, which is at distance 0 from the route, is
  beyond the bound.
\<close>

theorem forward_progress_bound_witness:
  "js_gt (getDistance (sample_path ! 0) (coordsOf sample_env (branch_at ''C'' ''1'' cell_E1)))
      (js_mul (getDistance (sample_path ! 0) (sample_path ! (length sample_path - 1)))
         (Fin (6 / 10)))
   \<and> nearest sample_path (coordsOf sample_env (branch_at ''C'' ''1'' cell_E1))
       = (Fin 0, Some (eq_pt 1))
   \<and> findNearbyBranchesFromPolyline sample_env (Fin 1000) sample_path
        ([branch_at ''B'' ''0.505'' cell_E2] @ branch_at ''C'' ''1'' cell_E1 # [])
      = [\<lparr>NearbyBranchResult.Name = ''B'', distanceToRoute_meters = Fin (arc (1 / 200)),
          minDistanceLocation = Some (eq_pt (1 / 2))\<rparr>]
   \<and> findNearbyBranchesFromPolyline sample_env (Fin 1000) sample_path
        [branch_at ''C'' ''1'' cell_E1] = []"
proof -
  note s = sample_like_envs(1)
  have p: "sample_path ! 0 = eq_pt 0" "sample_path ! (length sample_path - 1) = eq_pt 1"
    by (simp_all add: sample_path_def)
  have h: "js_gt (getDistance (sample_path ! 0) (coordsOf sample_env (branch_at ''C'' ''1'' cell_E1)))
      (js_mul (getDistance (sample_path ! 0) (sample_path ! (length sample_path - 1)))
         (Fin (6 / 10)))"
    by (simp only: p sample_coords [OF s] start_distances forward_test)
  have b: "findNearbyBranchesFromPolyline sample_env (Fin 1000) sample_path
             ([branch_at ''B'' ''0.505'' cell_E2] @ [])
           = [\<lparr>NearbyBranchResult.Name = ''B'', distanceToRoute_meters = Fin (arc (1 / 200)),
               minDistanceLocation = Some (eq_pt (1 / 2))\<rparr>]"
    by (simp add: findNearby_sample_path evalBranch_samples [OF s])
  from forward_progress_bound [OF h, of "Fin 1000" "[branch_at ''B'' ''0.505'' cell_E2]" "[]"] h b
  show ?thesis
    by (simp add: sample_coords [OF s] nearest_samples)
qed

text \<open>
  C10: on a path of fewer than two points the filter returns the empty list, whatever
  the threshold and the branches.
\<close>

theorem degenerate_path:
  "length decoded < 2 \<Longrightarrow> findNearbyBranchesFromPolyline env thr decoded branches = []"
  by (simp add: findNearbyBranchesFromPolyline_def)

theorem degenerate_path_witness:
  "length [eq_pt 0] < 2
   \<and> findNearbyBranchesFromPolyline sample_env PInf [eq_pt 0] [branch_at ''A'' ''0'' cell_E1] = []"
  using degenerate_path [of "[eq_pt 0]" sample_env PInf "[branch_at ''A'' ''0'' cell_E1]"] by simp

text \<open>
  C8: when the lateral threshold is increased, every result of the route-proximity filter
  is still a result; when the range threshold is increased, every key of the index of
  eligible EVs was a key before, and every vehicle that qualifies qualified before.
\<close>

theorem threshold_monotonicity:
  "(js_le t1 t2 \<longrightarrow>
      set (findNearbyBranchesFromPolyline env t1 decoded bs)
      \<subseteq> set (findNearbyBranchesFromPolyline env t2 decoded bs))
   \<and> (js_le r1 r2 \<longrightarrow>
        dom (highRangeEvMap env r2 carRows) \<subseteq> dom (highRangeEvMap env r1 carRows)
        \<and> (\<forall>c. eligible env r2 c \<longrightarrow> eligible env r1 c))"
  using findNearby_mono [of t1 t2 env decoded bs] eligible_mono [of r1 r2 env]
  by (auto simp: dom_highRangeEvMap)

theorem threshold_monotonicity_witness:
  "js_le (Fin 1000) PInf \<and> js_le (Fin 100) (Fin 120)
   \<and> findNearbyBranchesFromPolyline sample_env (Fin 1000) sample_path
         [branch_at ''B'' ''0.505'' cell_E1]
       = [\<lparr>NearbyBranchResult.Name = ''B'', distanceToRoute_meters = Fin (arc (1 / 200)),
           minDistanceLocation = Some (eq_pt (1 / 2))\<rparr>]
   \<and> \<lparr>NearbyBranchResult.Name = ''B'', distanceToRoute_meters = Fin (arc (1 / 200)),
        minDistanceLocation = Some (eq_pt (1 / 2))\<rparr>
       \<in> set (findNearbyBranchesFromPolyline sample_env PInf sample_path
                [branch_at ''B'' ''0.505'' cell_E1])
   \<and> eligible sample_env (Fin 120) car_E1 \<and> eligible sample_env (Fin 100) car_E1
   \<and> dom (highRangeEvMap sample_env (Fin 120) [car_E1])
       \<subseteq> dom (highRangeEvMap sample_env (Fin 100) [car_E1])"
proof -
  note s = sample_like_envs(1)
  have e: "eligible sample_env (Fin 120) car_E1"
    using sample_parseFloat_simps [OF s] by (simp add: eligible_def js_gt_def car_E1_def)
  have n: "findNearbyBranchesFromPolyline sample_env (Fin 1000) sample_path
         [branch_at ''B'' ''0.505'' cell_E1]
       = [\<lparr>NearbyBranchResult.Name = ''B'', distanceToRoute_meters = Fin (arc (1 / 200)),
           minDistanceLocation = Some (eq_pt (1 / 2))\<rparr>]"
    by (simp add: findNearby_sample_path evalBranch_samples [OF s])
  from threshold_monotonicity [of "Fin 1000" PInf sample_env sample_path
      "[branch_at ''B'' ''0.505'' cell_E1]" "Fin 100" "Fin 120" "[car_E1]"] e n
  show ?thesis
    by (simp add: js_le_def)
qed


section \<open>Bookings and the target date\<close>

text \<open>
  C5, as amended: a candidate is removed when a trip of its EV has a timestamp on the local
  calendar day of the target date, whatever the times of day; and in the time zone UTC,
  with a trip that departs at 2024-06-01T08:00:00Z and a target time on 2024-06-01, the
  result is \<^verbatim>\<open>null\<close> when every candidate has that EV.
\<close>

theorem booking_exclusion:
  "(\<forall>c\<in>set cands. \<forall>t\<in>set tripRows. \<forall>ts ms ms'.
       trim (car_id t) = ev_id c \<and> ev_id c \<noteq> [] \<and> timeStrOf t = Some ts \<and> ts \<noteq> []
       \<and> Date_parse env ts = Some ms \<and> new_Date env TIME = Some ms'
       \<and> local_day env ms = local_day env ms'
     \<longrightarrow> c \<notin> set (freeCandidates (bookedMap env tripRows) (toLocalDate env TIME) cands))
   \<and> (\<forall>t\<in>set tripRows. \<forall>t0 e.
         tz_offset env = (\<lambda>t. 0)
         \<and> Date_parse env ''2024-06-01T08:00:00Z'' = Some 1717228800000
         \<and> new_Date env TIME = Some t0 \<and> 1717200000000 \<le> t0 \<and> t0 < 1717286400000
         \<and> timeStrOf t = Some ''2024-06-01T08:00:00Z'' \<and> trim (car_id t) = e \<and> e \<noteq> []
         \<and> (\<forall>c\<in>set (candidatesFor env dthr rthr decoded branches carRows). ev_id c = e)
       \<longrightarrow> getBestBranchWithAvailableEV env dthr rthr TIME decoded branches carRows tripRows
           = Inr None)"
proof (intro conjI ballI allI impI)
  fix c t ts ms ms'
  assume "c \<in> set cands" "t \<in> set tripRows"
    and "trim (car_id t) = ev_id c \<and> ev_id c \<noteq> [] \<and> timeStrOf t = Some ts \<and> ts \<noteq> []
       \<and> Date_parse env ts = Some ms \<and> new_Date env TIME = Some ms'
       \<and> local_day env ms = local_day env ms'"
  then show "c \<notin> set (freeCandidates (bookedMap env tripRows) (toLocalDate env TIME) cands)"
    using booked_candidate_removed by blast
next
  fix t t0 e
  assume t: "t \<in> set tripRows"
    and h: "tz_offset env = (\<lambda>t. 0)
         \<and> Date_parse env ''2024-06-01T08:00:00Z'' = Some 1717228800000
         \<and> new_Date env TIME = Some t0 \<and> 1717200000000 \<le> t0 \<and> t0 < 1717286400000
         \<and> timeStrOf t = Some ''2024-06-01T08:00:00Z'' \<and> trim (car_id t) = e \<and> e \<noteq> []
         \<and> (\<forall>c\<in>set (candidatesFor env dthr rthr decoded branches carRows). ev_id c = e)"
  let ?cands = "candidatesFor env dthr rthr decoded branches carRows"
  have d: "local_day env 1717228800000 = local_day env t0"
    using h utc_day [of env t0] utc_day [of env 1717228800000] by simp
  have "c \<notin> set (freeCandidates (bookedMap env tripRows) (toLocalDate env TIME) ?cands)"
    if "c \<in> set ?cands" for c
    using booked_candidate_removed [OF t, of c "''2024-06-01T08:00:00Z''" env 1717228800000 TIME t0 ?cands]
      h d that by simp
  then have "freeCandidates (bookedMap env tripRows) (toLocalDate env TIME) ?cands = []"
    by (auto simp: freeCandidates_def filter_empty_conv)
  then show "getBestBranchWithAvailableEV env dthr rthr TIME decoded branches carRows tripRows
           = Inr None"
    by (simp add: getBestBranchWithAvailableEV_def freeCandidatesFor_def selectBest_Nil)
qed

theorem booking_exclusion_witness:
  "trip_E1 \<in> set [trip_E1]
   \<and> tz_offset sample_env = (\<lambda>t. 0)
   \<and> Date_parse sample_env ''2024-06-01T08:00:00Z'' = Some 1717228800000
   \<and> new_Date sample_env (DateStr ''2024-06-01'') = Some 1717200000000
   \<and> timeStrOf trip_E1 = Some ''2024-06-01T08:00:00Z'' \<and> trim (car_id trip_E1) = ''E1''
   \<and> candidatesFor sample_env (Fin 1000) (Fin 100) sample_path
         [branch_at ''B'' ''0.505'' cell_E1] [car_E1]
       = [cand_at ''B'' (101 / 200) (Fin (arc (1 / 200))) (eq_pt (1 / 2)) ''E1'']
   \<and> freeCandidates (bookedMap sample_env [trip_E1])
         (toLocalDate sample_env (DateStr ''2024-06-01''))
         [cand_at ''B'' (101 / 200) (Fin (arc (1 / 200))) (eq_pt (1 / 2)) ''E1''] = []
   \<and> getBestBranchWithAvailableEV sample_env (Fin 1000) (Fin 100) (DateStr ''2024-06-01'')
         sample_path [branch_at ''B'' ''0.505'' cell_E1] [car_E1] [trip_E1] = Inr None
   \<and> getBestBranchWithAvailableEV sample_env (Fin 1000) (Fin 100) (DateStr ''2024-06-01'')
         sample_path [branch_at ''B'' ''0.505'' cell_E1] [car_E1] []
       = Inr (Some (scored_at ''B'' (101 / 200) (Fin (arc (1 / 200))) (eq_pt (1 / 2)) ''E1''
                      (Fin (arc (1 / 200))) (Fin 1)))"
proof -
  let ?c = "cand_at ''B'' (101 / 200) (Fin (arc (1 / 200))) (eq_pt (1 / 2)) ''E1''"
  note T = booking_exclusion [of "[?c]" "[trip_E1]" sample_env "DateStr ''2024-06-01''"
      "Fin 1000" "Fin 100" sample_path "[branch_at ''B'' ''0.505'' cell_E1]" "[car_E1]"]
  note s = sample_like_envs(1)
  have tz: "tz_offset sample_env = (\<lambda>t. 0)"
    by (simp add: sample_env_def)
  have nd: "new_Date sample_env (DateStr ''2024-06-01'') = Some 1717200000000"
    by (simp add: new_Date_def sample_dates [OF s])
  have ev: "ev_id ?c = ''E1''"
    by (simp add: cand_at_def)
  have ld: "local_day sample_env 1717228800000 = local_day sample_env 1717200000000"
    by (simp add: local_day_def msPerDay_def tz)
  have 1: "?c \<notin> set (freeCandidates (bookedMap sample_env [trip_E1])
         (toLocalDate sample_env (DateStr ''2024-06-01'')) [?c])"
    using T [THEN conjunct1, rule_format, of ?c trip_E1 "''2024-06-01T08:00:00Z''"
        1717228800000 1717200000000]
    by (simp add: sample_trip_ids sample_timeStr sample_dates [OF s] nd ev ld)
  then have 1: "freeCandidates (bookedMap sample_env [trip_E1])
         (toLocalDate sample_env (DateStr ''2024-06-01'')) [?c] = []"
    by (rule free_single_removed)
  have 2: "getBestBranchWithAvailableEV sample_env (Fin 1000) (Fin 100) (DateStr ''2024-06-01'')
         sample_path [branch_at ''B'' ''0.505'' cell_E1] [car_E1] [trip_E1] = Inr None"
    using T [THEN conjunct2, rule_format, of trip_E1 1717200000000 "''E1''"]
    by (simp add: sample_trip_ids sample_timeStr sample_dates [OF s] nd tz
        candidates_single [OF s] ev)
  have 3: "getBestBranchWithAvailableEV sample_env (Fin 1000) (Fin 100) (DateStr ''2024-06-01'')
         sample_path [branch_at ''B'' ''0.505'' cell_E1] [car_E1] []
       = Inr (Some (scored_at ''B'' (101 / 200) (Fin (arc (1 / 200))) (eq_pt (1 / 2)) ''E1''
                      (Fin (arc (1 / 200))) (Fin 1)))"
    by (simp add: getBestBranchWithAvailableEV_def freeCandidatesFor_def free_unbooked
        candidates_single [OF s] sample_scores selectBest_one)
  from 1 2 3 show ?thesis
    by (simp add: tz nd sample_dates [OF s] sample_timeStr sample_trip_ids candidates_single [OF s])
qed

text \<open>
  Ten hours behind UTC the trip that departs at 2024-06-01T08:00:00Z is on the local day
  2024-05-31, so on the target date 2024-06-01 its EV is free and is returned.  Four
  hours behind UTC the trip is on the local day 2024-06-01, but the target time given as
  the string \<^verbatim>\<open>2024-06-01\<close>, which is midnight UTC, is on the local day 2024-05-31, and
  the EV is returned as well.
\<close>

theorem local_day_counterexample:
  "toLocalDate honolulu_env (DateObj (Some 1717279200000)) = ''2024-06-01''
   \<and> bookedMap honolulu_env [trip_E1] = [''E1'' \<mapsto> [''2024-05-31'']]
   \<and> getBestBranchWithAvailableEV honolulu_env (Fin 1000) (Fin 100)
         (DateObj (Some 1717279200000)) sample_path [branch_at ''B'' ''0.505'' cell_E1]
         [car_E1] [trip_E1]
       = Inr (Some (scored_at ''B'' (101 / 200) (Fin (arc (1 / 200))) (eq_pt (1 / 2)) ''E1''
                      (Fin (arc (1 / 200))) (Fin 1)))
   \<and> toLocalDate new_york_env (DateStr ''2024-06-01'') = ''2024-05-31''
   \<and> bookedMap new_york_env [trip_E1] = [''E1'' \<mapsto> [''2024-06-01'']]
   \<and> getBestBranchWithAvailableEV new_york_env (Fin 1000) (Fin 100) (DateStr ''2024-06-01'')
         sample_path [branch_at ''B'' ''0.505'' cell_E1] [car_E1] [trip_E1]
       = Inr (Some (scored_at ''B'' (101 / 200) (Fin (arc (1 / 200))) (eq_pt (1 / 2)) ''E1''
                      (Fin (arc (1 / 200))) (Fin 1)))"
  by (simp add: getBestBranchWithAvailableEV_def freeCandidatesFor_def freeCandidates_def
      sample_booking [OF sample_like_envs(2)] sample_booking [OF sample_like_envs(3)]
      candidates_single [OF sample_like_envs(2)] candidates_single [OF sample_like_envs(3)]
      sample_toLocalDate sample_scores selectBest_one)

text \<open>
  C6, as amended: the dates of a car in the index are those of its trips that are not
  skipped, one each, in order; a trip whose car id is not blank gives the date of its
  departure time when that is not blank and parses, and the date of its arrival time when
  the departure time is missing or blank and the arrival time is not blank and parses; a
  trip with neither time, with a time that does not parse, or with a blank car id is
  skipped.
\<close>

theorem booked_date_index:
  "(\<forall>k. (case bookedMap env tripRows k of None \<Rightarrow> [] | Some ds \<Rightarrow> ds)
         = map snd (filter (\<lambda>e. fst e = k) (List.map_filter (tripEntry env) tripRows)))
   \<and> (\<forall>t s. trim (car_id t) \<noteq> [] \<and> departure_time t = Some s \<and> trim s \<noteq> []
          \<and> Date_parse env (trim s) \<noteq> None
        \<longrightarrow> tripEntry env t = Some (trim (car_id t), toLocalDate env (DateStr (trim s))))
   \<and> (\<forall>t s. trim (car_id t) \<noteq> []
          \<and> (departure_time t = None \<or> (\<exists>s'. departure_time t = Some s' \<and> trim s' = []))
          \<and> arrival_time t = Some s \<and> trim s \<noteq> [] \<and> Date_parse env (trim s) \<noteq> None
        \<longrightarrow> tripEntry env t = Some (trim (car_id t), toLocalDate env (DateStr (trim s))))
   \<and> (\<forall>t. (departure_time t = None \<or> (\<exists>s'. departure_time t = Some s' \<and> trim s' = []))
          \<and> (arrival_time t = None \<or> (\<exists>s'. arrival_time t = Some s' \<and> trim s' = []))
        \<longrightarrow> tripEntry env t = None)
   \<and> (\<forall>t ts. timeStrOf t = Some ts \<and> Date_parse env ts = None \<longrightarrow> tripEntry env t = None)
   \<and> (\<forall>t. trim (car_id t) = [] \<longrightarrow> tripEntry env t = None)"
  by (auto simp: booked_dates tripEntry_cases timeStrOf_def split: option.splits)

theorem booked_date_index_witness:
  "(case bookedMap sample_env [trip_E1, trip_neither, trip_unparseable, trip_arrival] ''E1'' of
      None \<Rightarrow> [] | Some ds \<Rightarrow> ds) = [''2024-06-01'', ''2024-06-01'']
   \<and> tripEntry sample_env trip_E1 = Some (''E1'', ''2024-06-01'')
   \<and> tripEntry sample_env trip_arrival = Some (''E1'', ''2024-06-01'')
   \<and> tripEntry sample_env trip_neither = None
   \<and> tripEntry sample_env trip_unparseable = None
   \<and> tripEntry sample_env trip_blank_id = None"
proof -
  note s = sample_like_envs(1)
  note T = booked_date_index [of sample_env "[trip_E1, trip_neither, trip_unparseable, trip_arrival]"]
  have d: "departure_time trip_E1 = Some ''2024-06-01T08:00:00Z''"
    "departure_time trip_arrival = Some ''  ''" "arrival_time trip_arrival = Some ''2024-06-01T08:00:00Z''"
    "departure_time trip_neither = None" "arrival_time trip_neither = None"
    by (simp_all add: trip_E1_def trip_arrival_def trip_neither_def)
  have 1: "tripEntry sample_env trip_E1 = Some (''E1'', ''2024-06-01'')"
    using T [THEN conjunct2, THEN conjunct1, rule_format, of trip_E1 "''2024-06-01T08:00:00Z''"]
    by (simp add: sample_trip_ids d trim_samples sample_dates [OF s] sample_toLocalDate)
  have 2: "tripEntry sample_env trip_arrival = Some (''E1'', ''2024-06-01'')"
    using T [THEN conjunct2, THEN conjunct2, THEN conjunct1, rule_format,
        of trip_arrival "''2024-06-01T08:00:00Z''"]
    by (simp add: sample_trip_ids d trim_samples sample_dates [OF s] sample_toLocalDate)
  have 3: "tripEntry sample_env trip_neither = None"
    using T [THEN conjunct2, THEN conjunct2, THEN conjunct2, THEN conjunct1, rule_format,
        of trip_neither]
    by (simp add: d)
  have 4: "tripEntry sample_env trip_unparseable = None"
    using T [THEN conjunct2, THEN conjunct2, THEN conjunct2, THEN conjunct2, THEN conjunct1,
        rule_format, of trip_unparseable "''soon''"]
    by (simp add: sample_timeStr sample_dates [OF s])
  have 5: "tripEntry sample_env trip_blank_id = None"
    using T [THEN conjunct2, THEN conjunct2, THEN conjunct2, THEN conjunct2, THEN conjunct2,
        rule_format, of trip_blank_id]
    by (simp add: sample_trip_ids)
  from T have "(case bookedMap sample_env [trip_E1, trip_neither, trip_unparseable, trip_arrival] ''E1'' of
      None \<Rightarrow> [] | Some ds \<Rightarrow> ds)
     = map snd (filter (\<lambda>e. fst e = ''E1'')
         (List.map_filter (tripEntry sample_env) [trip_E1, trip_neither, trip_unparseable, trip_arrival]))"
    by (rule conjunct1 [THEN spec])
  with 1 2 3 4 5 show ?thesis by simp
qed

text \<open>
  A trip with a departure time that parses and a car id of two spaces adds nothing to
  the index.
\<close>

theorem blank_car_id_counterexample:
  "timeStrOf trip_blank_id = Some ''2024-06-01T08:00:00Z''
   \<and> Date_parse sample_env ''2024-06-01T08:00:00Z'' = Some 1717228800000
   \<and> bookedMap sample_env [trip_blank_id] = Map.empty"
  by (simp add: sample_timeStr sample_dates [OF sample_like_envs(1)] bookedMap_def bookTrip_def
      tripEntry_cases sample_trip_ids)


section \<open>Eligible EVs and the candidate join\<close>

text \<open>
  C7: the index of eligible EVs has exactly the trimmed ids of the vehicles whose type is
  electric and whose range is strictly greater than the threshold, each with the row of
  such a vehicle; a vehicle whose range equals the threshold, or whose type is not
  electric, does not qualify; the EV of every candidate is a vehicle that qualifies;
  and an id that only vehicles that do not qualify have is the EV of no candidate.
\<close>

theorem eligible_ev_index:
  "dom (highRangeEvMap env rthr carRows)
     = {trim (CarRow.id c) | c. c \<in> set carRows \<and> type c = ''electric''
          \<and> js_gt (parseFloat env (range_km c)) rthr}
   \<and> (\<forall>k v. highRangeEvMap env rthr carRows k = Some v \<longrightarrow>
          (\<exists>c\<in>set carRows. trim (CarRow.id c) = k \<and> type c = ''electric''
             \<and> js_gt (parseFloat env (range_km c)) rthr
             \<and> v = CarRow.extend c
                   (CarWithTrips.fields (parseStringArray env (Some (trips_ids c))))))
   \<and> (\<forall>c::CarRow. parseFloat env (range_km c) = rthr \<or> type c \<noteq> ''electric'' \<longrightarrow>
          \<not> eligible env rthr c)
   \<and> (\<forall>c\<in>set (candidatesFor env dthr rthr decoded branches carRows).
          \<exists>car\<in>set carRows. trim (CarRow.id car) = ev_id c \<and> type car = ''electric''
             \<and> js_gt (parseFloat env (range_km car)) rthr)
   \<and> (\<forall>k. (\<forall>car\<in>set carRows. trim (CarRow.id car) = k \<longrightarrow> \<not> eligible env rthr car) \<longrightarrow>
          k \<notin> ev_id ` set (candidatesFor env dthr rthr decoded branches carRows))"
proof (intro conjI allI ballI impI)
  show "dom (highRangeEvMap env rthr carRows)
     = {trim (CarRow.id c) | c. c \<in> set carRows \<and> type c = ''electric''
          \<and> js_gt (parseFloat env (range_km c)) rthr}"
    by (simp add: dom_highRangeEvMap eligible_def)
next
  fix k v
  assume "highRangeEvMap env rthr carRows k = Some v"
  from highRangeEvMap_value [OF this]
  show "\<exists>c\<in>set carRows. trim (CarRow.id c) = k \<and> type c = ''electric''
             \<and> js_gt (parseFloat env (range_km c)) rthr
             \<and> v = CarRow.extend c
                   (CarWithTrips.fields (parseStringArray env (Some (trips_ids c))))"
    by (auto simp: eligible_def)
next
  fix c :: CarRow
  assume "parseFloat env (range_km c) = rthr \<or> type c \<noteq> ''electric''"
  then show "\<not> eligible env rthr c"
    by (auto simp: eligible_def js_gt_def js_lt_irrefl)
next
  fix c
  assume "c \<in> set (candidatesFor env dthr rthr decoded branches carRows)"
  from candidate_ev_in_index [OF this]
  show "\<exists>car\<in>set carRows. trim (CarRow.id car) = ev_id c \<and> type car = ''electric''
             \<and> js_gt (parseFloat env (range_km car)) rthr"
    by (auto simp: dom_highRangeEvMap eligible_def)
next
  fix k
  assume n: "\<forall>car\<in>set carRows. trim (CarRow.id car) = k \<longrightarrow> \<not> eligible env rthr car"
  show "k \<notin> ev_id ` set (candidatesFor env dthr rthr decoded branches carRows)"
  proof
    assume "k \<in> ev_id ` set (candidatesFor env dthr rthr decoded branches carRows)"
    then obtain c where "c \<in> set (candidatesFor env dthr rthr decoded branches carRows)"
      and "ev_id c = k"
      by auto
    with candidate_ev_in_index [of c env dthr rthr decoded branches carRows] n show False
      by (auto simp: dom_highRangeEvMap)
  qed
qed

theorem eligible_ev_index_witness:
  "dom (highRangeEvMap sample_env (Fin 100) [car_E1, car_E3, car_E2, car_G1]) = {''E1'', ''E2''}
   \<and> parseFloat sample_env (range_km car_E3) = Fin 100 \<and> \<not> eligible sample_env (Fin 100) car_E3
   \<and> type car_G1 \<noteq> ''electric'' \<and> \<not> eligible sample_env (Fin 100) car_G1
   \<and> parseStringArray sample_env (cars (branch_at ''A'' ''0.5'' cell_E1_E3)) = [''E1'', ''E3'']
   \<and> map ev_id (candidatesFor sample_env (Fin 1000) (Fin 100) sample_path
                   [branch_at ''A'' ''0.5'' cell_E1_E3] [car_E1, car_E3, car_E2, car_G1])
       = [''E1'']
   \<and> ''E3'' \<notin> ev_id ` set (candidatesFor sample_env (Fin 1000) (Fin 100) sample_path
                   [branch_at ''A'' ''0.5'' cell_E1_E3] [car_E1, car_E3, car_E2, car_G1])"
proof -
  note s = sample_like_envs(1)
  note T = eligible_ev_index [of sample_env "Fin 100" "[car_E1, car_E3, car_E2, car_G1]"
        "Fin 1000" sample_path "[branch_at ''A'' ''0.5'' cell_E1_E3]"]
  have 1: "parseFloat sample_env (range_km car_E3) = Fin 100"
    by (simp add: car_E3_def sample_parseFloat_simps [OF s])
  have 2: "type car_G1 \<noteq> ''electric''"
    by (simp add: car_G1_def)
  have 3: "{trim (CarRow.id c) | c. c \<in> set [car_E1, car_E3, car_E2, car_G1]
             \<and> type c = ''electric'' \<and> js_gt (parseFloat sample_env (range_km c)) (Fin 100)}
           = {''E1'', ''E2''}" (is "?L = ?R")
  proof -
    have "?L = (\<lambda>c. trim (CarRow.id c))
                 ` set (filter (eligible sample_env (Fin 100)) [car_E1, car_E3, car_E2, car_G1])"
      by (auto simp: eligible_def)
    also have "\<dots> = ?R"
      by (simp add: sample_eligible [OF s] sample_ids)
    finally show ?thesis .
  qed
  have 4: "\<not> eligible sample_env (Fin 100) car_E3" "\<not> eligible sample_env (Fin 100) car_G1"
    using T [THEN conjunct2, THEN conjunct2, THEN conjunct1, rule_format, of car_E3]
      T [THEN conjunct2, THEN conjunct2, THEN conjunct1, rule_format, of car_G1] 1 2
    by simp_all
  have 5: "''E3'' \<notin> ev_id ` set (candidatesFor sample_env (Fin 1000) (Fin 100) sample_path
                   [branch_at ''A'' ''0.5'' cell_E1_E3] [car_E1, car_E3, car_E2, car_G1])"
  proof -
    have "\<forall>car\<in>set [car_E1, car_E3, car_E2, car_G1].
            trim (CarRow.id car) = ''E3'' \<longrightarrow> \<not> eligible sample_env (Fin 100) car"
      using 4 by (simp add: sample_ids)
    with T [THEN conjunct2, THEN conjunct2, THEN conjunct2, THEN conjunct2, THEN spec,
        of "''E3''"]
    show ?thesis by (rule mp)
  qed
  from T 1 2 3 4 5 show ?thesis
    by (simp add: candidates_one_excluded [OF s] cand_at_def branch_at_fields sample_cells [OF s])
qed

text \<open>
  C9: the candidates are the concatenation, over the branches in order, of one candidate
  per vehicle id of the branch that has the electric prefix and is in the index of
  eligible EVs, for the branches whose name is among the nearby results; a branch whose
  name is not among them contributes none, and the number a branch contributes is the
  number of such ids.
\<close>

theorem candidate_join:
  "candidatesFor env dthr rthr decoded branches carRows
     = concat (map (joinRow env
                      (nearbyMapOf (findNearbyBranchesFromPolyline env dthr decoded branches))
                      (highRangeEvMap env rthr carRows)) branches)
   \<and> (\<forall>b evMap.
          BranchRow.Name b
            \<notin> NearbyBranchResult.Name ` set (findNearbyBranchesFromPolyline env dthr decoded branches)
          \<longrightarrow> joinRow env (nearbyMapOf (findNearbyBranchesFromPolyline env dthr decoded branches))
                evMap b = [])
   \<and> (\<forall>b nearbyMap evMap.
          length (joinRow env nearbyMap evMap b)
          = (if nearbyMap (BranchRow.Name b) = None then 0
             else length (filter (\<lambda>ev. startsWithE (trim ev) \<and> trim ev \<in> dom evMap)
                            (parseStringArray env (cars b)))))
   \<and> (\<forall>b nearbyMap evMap.
          map ev_id (joinRow env nearbyMap evMap b)
          = (if nearbyMap (BranchRow.Name b) = None then []
             else map trim (filter (\<lambda>ev. startsWithE (trim ev) \<and> trim ev \<in> dom evMap)
                              (parseStringArray env (cars b)))))"
  using candidatesFor_join joinRow_not_nearby length_joinRow joinRow_ev_ids
  by blast

theorem candidate_join_witness:
  "candidatesFor sample_env (Fin 1000) (Fin 100) sample_path
     [branch_at ''A'' ''0.5'' cell_E1_E2, branch_at ''C'' ''1'' cell_E1_E2,
      branch_at ''D'' ''0'' cell_E3]
     [car_E1, car_E3, car_E2, car_G1]
   = [cand_at ''A'' (1 / 2) (Fin 0) (eq_pt (1 / 2)) ''E1'',
      cand_at ''A'' (1 / 2) (Fin 0) (eq_pt (1 / 2)) ''E2'']
   \<and> NearbyBranchResult.Name ` set (findNearbyBranchesFromPolyline sample_env (Fin 1000)
         sample_path [branch_at ''A'' ''0.5'' cell_E1_E2, branch_at ''C'' ''1'' cell_E1_E2,
                      branch_at ''D'' ''0'' cell_E3])
       = {''A'', ''D''}
   \<and> length (joinRow sample_env
         (nearbyMapOf (findNearbyBranchesFromPolyline sample_env (Fin 1000) sample_path
            [branch_at ''A'' ''0.5'' cell_E1_E2, branch_at ''C'' ''1'' cell_E1_E2,
             branch_at ''D'' ''0'' cell_E3]))
         (highRangeEvMap sample_env (Fin 100) [car_E1, car_E3, car_E2, car_G1])
         (branch_at ''A'' ''0.5'' cell_E1_E2)) = 2
   \<and> joinRow sample_env
         (nearbyMapOf (findNearbyBranchesFromPolyline sample_env (Fin 1000) sample_path
            [branch_at ''A'' ''0.5'' cell_E1_E2, branch_at ''C'' ''1'' cell_E1_E2,
             branch_at ''D'' ''0'' cell_E3]))
         (highRangeEvMap sample_env (Fin 100) [car_E1, car_E3, car_E2, car_G1])
         (branch_at ''C'' ''1'' cell_E1_E2) = []
   \<and> length (joinRow sample_env
         (nearbyMapOf (findNearbyBranchesFromPolyline sample_env (Fin 1000) sample_path
            [branch_at ''A'' ''0.5'' cell_E1_E2, branch_at ''C'' ''1'' cell_E1_E2,
             branch_at ''D'' ''0'' cell_E3]))
         (highRangeEvMap sample_env (Fin 100) [car_E1, car_E3, car_E2, car_G1])
         (branch_at ''D'' ''0'' cell_E3)) = 0"
proof -
  note s = sample_like_envs(1)
  let ?bs = "[branch_at ''A'' ''0.5'' cell_E1_E2, branch_at ''C'' ''1'' cell_E1_E2,
              branch_at ''D'' ''0'' cell_E3]"
  let ?cs = "[car_E1, car_E3, car_E2, car_G1]"
  have f: "findNearbyBranchesFromPolyline sample_env (Fin 1000) sample_path ?bs
           = [\<lparr>NearbyBranchResult.Name = ''A'', distanceToRoute_meters = Fin 0,
               minDistanceLocation = Some (eq_pt (1 / 2))\<rparr>,
              \<lparr>NearbyBranchResult.Name = ''D'', distanceToRoute_meters = Fin 0,
               minDistanceLocation = Some (eq_pt 0)\<rparr>]"
    by (simp add: findNearby_sample_path evalBranch_samples [OF s])
  have n: "BranchRow.Name (branch_at ''C'' ''1'' cell_E1_E2)
       \<notin> NearbyBranchResult.Name ` set (findNearbyBranchesFromPolyline sample_env (Fin 1000)
           sample_path ?bs)"
    by (simp add: f branch_at_fields)
  have a: "nearbyMapOf (findNearbyBranchesFromPolyline sample_env (Fin 1000) sample_path ?bs)
             (BranchRow.Name (branch_at ''A'' ''0.5'' cell_E1_E2)) \<noteq> None"
    "nearbyMapOf (findNearbyBranchesFromPolyline sample_env (Fin 1000) sample_path ?bs)
             (BranchRow.Name (branch_at ''D'' ''0'' cell_E3)) \<noteq> None"
    by (simp_all add: f nearbyMapOf_def branch_at_fields)
  have d: "dom (highRangeEvMap sample_env (Fin 100) ?cs) = {''E1'', ''E2''}"
    by (auto simp: sample_index [OF s])
  from candidate_join [of sample_env "Fin 1000" "Fin 100" sample_path ?bs ?cs] n a
  show ?thesis
    by (simp add: d branch_at_fields sample_cells [OF s] trim_samples startsWithE_def
        candidates_two_evs [OF s])
      (auto simp: f)
qed

end
